theory Spec2Isabelle
  imports Main "HOL-Library.AList"
begin

section \<open>JavaScript strings\<close>

text \<open>
  A JavaScript string is modelled as a \<open>string\<close> (a list of \<open>char\<close>), one \<open>char\<close> per
  UTF-16 code unit, for the code units \<open>0x00\<close> to \<open>0xFF\<close>; strings with higher code units
  are outside the model. \<open>String.prototype.trim\<close> removes the white space and line
  terminators of ECMAScript; those below \<open>0x100\<close> are TAB, LF, VT, FF, CR, SPACE and the
  no-break space \<open>0xA0\<close>. \<open>toLowerCase\<close> maps \<open>A\<close> to \<open>Z\<close> and the capital letters
  \<open>0xC0\<close> to \<open>0xDE\<close> (all but the multiplication sign \<open>0xD7\<close>) to the letter \<open>0x20\<close>
  above them, and leaves every other code unit below \<open>0x100\<close> as it is.
\<close>

definition is_ws :: "char \<Rightarrow> bool" where
  "is_ws c \<longleftrightarrow>
     c \<in> set [CHR 0x09, CHR 0x0A, CHR 0x0B, CHR 0x0C, CHR 0x0D, CHR '' '', CHR 0xA0]"

definition trim :: "string \<Rightarrow> string" where
  "trim s = rev (dropWhile is_ws (rev (dropWhile is_ws s)))"

definition upper_letters :: string where
  "upper_letters =
     ''ABCDEFGHIJKLMNOPQRSTUVWXYZ''
     @ [CHR 0xC0, CHR 0xC1, CHR 0xC2, CHR 0xC3, CHR 0xC4, CHR 0xC5, CHR 0xC6,
        CHR 0xC7, CHR 0xC8, CHR 0xC9, CHR 0xCA, CHR 0xCB, CHR 0xCC, CHR 0xCD,
        CHR 0xCE, CHR 0xCF, CHR 0xD0, CHR 0xD1, CHR 0xD2, CHR 0xD3, CHR 0xD4,
        CHR 0xD5, CHR 0xD6, CHR 0xD8, CHR 0xD9, CHR 0xDA, CHR 0xDB, CHR 0xDC,
        CHR 0xDD, CHR 0xDE]"

definition lower_letters :: string where
  "lower_letters =
     ''abcdefghijklmnopqrstuvwxyz''
     @ [CHR 0xE0, CHR 0xE1, CHR 0xE2, CHR 0xE3, CHR 0xE4, CHR 0xE5, CHR 0xE6,
        CHR 0xE7, CHR 0xE8, CHR 0xE9, CHR 0xEA, CHR 0xEB, CHR 0xEC, CHR 0xED,
        CHR 0xEE, CHR 0xEF, CHR 0xF0, CHR 0xF1, CHR 0xF2, CHR 0xF3, CHR 0xF4,
        CHR 0xF5, CHR 0xF6, CHR 0xF8, CHR 0xF9, CHR 0xFA, CHR 0xFB, CHR 0xFC,
        CHR 0xFD, CHR 0xFE]"

definition lower_char :: "char \<Rightarrow> char" where
  "lower_char c =
     (case map_of (zip upper_letters lower_letters) c of
        Some l \<Rightarrow> l
      | None \<Rightarrow> c)"

definition toLowerCase :: "string \<Rightarrow> string" where
  "toLowerCase s = map lower_char s"

text \<open>\<open>s.startsWith(p)\<close>, \<open>s.includes(p)\<close>, \<open>s.slice(n)\<close> and \<open>s.slice(a, b)\<close> for
  non-negative indices.\<close>

fun startsWith :: "string \<Rightarrow> string \<Rightarrow> bool" where
  "startsWith s [] = True"
| "startsWith [] (p # ps) = False"
| "startsWith (c # cs) (p # ps) = (c = p \<and> startsWith cs ps)"

fun includes_str :: "string \<Rightarrow> string \<Rightarrow> bool" where
  "includes_str [] p = (p = [])"
| "includes_str (c # cs) p = (startsWith (c # cs) p \<or> includes_str cs p)"

definition slice_from :: "string \<Rightarrow> nat \<Rightarrow> string" where
  "slice_from s n = drop n s"

definition slice :: "string \<Rightarrow> nat \<Rightarrow> nat \<Rightarrow> string" where
  "slice s a b = take (b - a) (drop a s)"



text \<open>\<open>s.split("\n")\<close>: the pieces between line feeds; the empty string gives one
  empty piece.\<close>

fun split_lines :: "string \<Rightarrow> string list" where
  "split_lines [] = [[]]"
| "split_lines (c # cs) =
     (if c = CHR 0x0A then [] # split_lines cs
      else (case split_lines cs of
              [] \<Rightarrow> [[c]]
            | l # ls \<Rightarrow> (c # l) # ls))"

text \<open>The characters of the class \<open>[a-z0-9]\<close>.\<close>

definition is_lower_alnum :: "char \<Rightarrow> bool" where
  "is_lower_alnum c \<longleftrightarrow> c \<in> set ''abcdefghijklmnopqrstuvwxyz0123456789''"

text \<open>The decimal text of a natural number, as \<open>String(n)\<close> and the index keys of an
  array give it; \<open>digit_char\<close> is applied to numbers below ten only.\<close>

definition digit_char :: "nat \<Rightarrow> char" where
  "digit_char d = ''0123456789'' ! d"

function dec :: "nat \<Rightarrow> string" where
  "dec n = (if n < 10 then [digit_char n] else dec (n div 10) @ [digit_char (n mod 10)])"
  by pat_completeness auto
termination
  by (relation "measure id") auto

declare dec.simps [simp del]

section \<open>Scope path normalization\<close>

text \<open>
  \<^verbatim>\<open>String(value || "").trim().replace(/\\+/g, "/").replace(/^\/+/, "").replace(/\/+$/, "")\<close>
  The component's \<open>normalizePath\<close> and the capture service's \<open>normalizeScopePath\<close> have
  this same body. The first \<open>replace\<close> turns every maximal run of backslashes into one
  slash, the second removes the slashes at the start, the third those at the end.
\<close>

function replace_backslash_runs :: "string \<Rightarrow> string" where
  "replace_backslash_runs [] = []"
| "replace_backslash_runs (c # cs) =
     (if c = CHR 0x5C
      then CHR ''/'' # replace_backslash_runs (dropWhile (\<lambda>d. d = CHR 0x5C) cs)
      else c # replace_backslash_runs cs)"
  by pat_completeness auto
termination
  by (relation "measure length") (auto simp: le_imp_less_Suc length_dropWhile_le)

definition strip_leading_slashes :: "string \<Rightarrow> string" where
  "strip_leading_slashes s = dropWhile (\<lambda>c. c = CHR ''/'') s"

definition strip_trailing_slashes :: "string \<Rightarrow> string" where
  "strip_trailing_slashes s = rev (dropWhile (\<lambda>c. c = CHR ''/'') (rev s))"

definition normalizePath :: "string \<Rightarrow> string" where
  "normalizePath v =
     strip_trailing_slashes (strip_leading_slashes (replace_backslash_runs (trim v)))"

definition normalizeScopePath :: "string \<Rightarrow> string" where
  "normalizeScopePath v =
     strip_trailing_slashes (strip_leading_slashes (replace_backslash_runs (trim v)))"

section \<open>JSON values\<close>

text \<open>
  The values \<open>JSON.parse\<close> returns and the API hands over. A number is represented by
  the text \<open>String\<close> gives for it (\<open>"0.3"\<close>, \<open>"2048"\<close>): the code observes a number
  only through \<open>String\<close> and through its truth value. An object is its list of entries
  in insertion order, with distinct keys (JavaScript enumerates keys that look like
  array indices first; nothing below depends on the order of enumeration).
  \<open>undefined\<close> is \<open>None\<close> of \<open>json option\<close>.
\<close>

datatype json =
    JNull
  | JBool bool
  | JNum string
  | JStr string
  | JArr "json list"
  | JObj "(string \<times> json) list"

datatype error = Error string | TypeError string | SyntaxError string

text \<open>The truth value of \<open>v\<close> in \<open>!v\<close>, \<open>v || w\<close>, \<open>v && w\<close> and \<open>if (v)\<close>.\<close>

fun truthy :: "json option \<Rightarrow> bool" where
  "truthy None = False"
| "truthy (Some JNull) = False"
| "truthy (Some (JBool b)) = b"
| "truthy (Some (JNum n)) = (n \<noteq> ''0'' \<and> n \<noteq> ''NaN'')"
| "truthy (Some (JStr s)) = (s \<noteq> [])"
| "truthy (Some (JArr xs)) = True"
| "truthy (Some (JObj kvs)) = True"

definition js_or :: "json option \<Rightarrow> json option \<Rightarrow> json option" where
  "js_or a b = (if truthy a then a else b)"

text \<open>\<open>v.k\<close> on a value that is neither \<open>null\<close> nor \<open>undefined\<close>, for the keys this code
  reads (none of them a built-in property of strings or arrays), and \<open>v?.k\<close>.\<close>

fun get :: "json \<Rightarrow> string \<Rightarrow> json option" where
  "get (JObj kvs) k = map_of kvs k"
| "get v k = None"

fun opt_get :: "json option \<Rightarrow> string \<Rightarrow> json option" where
  "opt_get None k = None"
| "opt_get (Some JNull) k = None"
| "opt_get (Some v) k = get v k"

text \<open>\<open>v && typeof v === "object"\<close>, \<open>typeof v === "string"\<close>, \<open>Array.isArray(v)\<close>.\<close>

fun is_object :: "json option \<Rightarrow> bool" where
  "is_object (Some (JObj kvs)) = True"
| "is_object (Some (JArr xs)) = True"
| "is_object v = False"

fun as_string :: "json option \<Rightarrow> string option" where
  "as_string (Some (JStr s)) = Some s"
| "as_string v = None"

text \<open>\<open>String(v)\<close>. An array is its elements joined by commas, \<open>null\<close> elements being
  empty.\<close>

fun join_with :: "string \<Rightarrow> string list \<Rightarrow> string" where
  "join_with sep [] = []"
| "join_with sep [x] = x"
| "join_with sep (x # y # ys) = x @ sep @ join_with sep (y # ys)"

fun String_of :: "json \<Rightarrow> string" where
  "String_of JNull = ''null''"
| "String_of (JBool b) = (if b then ''true'' else ''false'')"
| "String_of (JNum n) = n"
| "String_of (JStr s) = s"
| "String_of (JArr xs) =
     join_with '','' (map (\<lambda>x. if x = JNull then [] else String_of x) xs)"
| "String_of (JObj kvs) = ''[object Object]''"

fun js_String :: "json option \<Rightarrow> string" where
  "js_String None = ''undefined''"
| "js_String (Some v) = String_of v"

text \<open>The own enumerable entries of a value, as \<open>Object.entries\<close> and object spread see
  them: an array and a string have their indices as keys.\<close>

fun own_entries :: "json \<Rightarrow> (string \<times> json) list" where
  "own_entries (JObj kvs) = kvs"
| "own_entries (JArr xs) = zip (map dec [0..<length xs]) xs"
| "own_entries (JStr s) = zip (map dec [0..<length s]) (map (\<lambda>c. JStr [c]) s)"
| "own_entries v = []"

text \<open>\<open>{ ...base, ...v }\<close> on top of the entries \<open>base\<close>: a key already there keeps its
  place and takes the new value, a new key goes to the end.\<close>

definition spread :: "(string \<times> json) list \<Rightarrow> (string \<times> json) list \<Rightarrow> (string \<times> json) list" where
  "spread base kvs = foldl (\<lambda>acc (k, x). AList.update k x acc) base kvs"

section \<open>The capture service: extracting text\<close>

text \<open>\<open>extractTextFromData\<close>. The six named fields are tried in order; each as a string,
  then as an object with a string \<open>content\<close>.\<close>

fun extract_fields :: "json \<Rightarrow> string list \<Rightarrow> string option" where
  "extract_fields data [] = None"
| "extract_fields data (field # fields) =
     (case as_string (get data field) of
        Some s \<Rightarrow> Some s
      | None \<Rightarrow>
          (case as_string (opt_get (get data field) ''content'') of
             Some s \<Rightarrow> Some s
           | None \<Rightarrow> extract_fields data fields))"

definition extract_choice :: "json \<Rightarrow> string option" where
  "extract_choice data =
     (case get data ''choices'' of
        Some (JArr (choice # rest)) \<Rightarrow>
          (if truthy (opt_get (opt_get (Some choice) ''delta'') ''content'')
           then Some (js_String (opt_get (opt_get (Some choice) ''delta'') ''content''))
           else if truthy (opt_get (opt_get (Some choice) ''message'') ''content'')
           then Some (js_String (opt_get (opt_get (Some choice) ''message'') ''content''))
           else if truthy (opt_get (Some choice) ''text'')
           then Some (js_String (opt_get (Some choice) ''text''))
           else None)
      | _ \<Rightarrow> None)"

definition extractTextFromData :: "json option \<Rightarrow> string" where
  "extractTextFromData data =
     (if \<not> truthy data then []
      else case data of
        Some (JStr s) \<Rightarrow> s
      | Some d \<Rightarrow>
          (if is_object data then
             (case as_string (get d ''text'') of
                Some s \<Rightarrow> s
              | None \<Rightarrow>
                  (case extract_choice d of
                     Some s \<Rightarrow> s
                   | None \<Rightarrow>
                       (case extract_fields d
                               [''content'', ''message'', ''response'', ''output'', ''result'', ''answer''] of
                          Some s \<Rightarrow> s
                        | None \<Rightarrow>
                            (case as_string (opt_get (get d ''delta'') ''content'') of
                               Some s \<Rightarrow> s
                             | None \<Rightarrow> []))))
           else [])
      | None \<Rightarrow> [])"

text \<open>\<open>normalizeApiPayload\<close>: the \<open>data\<close> member of an enveloped response, when it has
  one.\<close>

definition normalizeApiPayload :: "json \<Rightarrow> json" where
  "normalizeApiPayload response =
     (if \<not> is_object (Some response) then response
      else case get response ''data'' of Some d \<Rightarrow> d | None \<Rightarrow> response)"

section \<open>The capture service: sending a prompt\<close>

text \<open>
  What the code takes from its surroundings. \<open>JSON.parse\<close> and \<open>JSON.stringify\<close> are
  the runtime's: \<open>parse s = None\<close> stands for the \<open>SyntaxError\<close> of a text that is not
  JSON. The clock gives \<open>new Date().toISOString()\<close>.
\<close>

record env =
  parse :: "string \<Rightarrow> json option"
  stringify :: "json \<Rightarrow> string"
  now_iso :: string

text \<open>
  The API service of the host. A method that the host does not provide is \<open>None\<close>. A
  call resolves with a response (\<open>Inr\<close>) or rejects (\<open>Inl\<close>). \<open>postStreaming\<close> hands the
  frames of its first component to the frame callback, one by one, and then resolves,
  or rejects with the error of its second component. Cancellation through the abort
  signal is the transport's and shows here as a rejection after the frames delivered
  so far.
\<close>

record api_service =
  api_get :: "(string \<Rightarrow> error + json) option"
  api_post :: "(string \<Rightarrow> json \<Rightarrow> error + json) option"
  api_put :: "(string \<Rightarrow> json \<Rightarrow> error + json) option"
  api_postStreaming :: "(string \<Rightarrow> json \<Rightarrow> string list \<times> error option) option"

text \<open>A request as issued: the method, the URL and the body; \<open>POST_FORM\<close> is the
  multipart upload of the file of the given name.\<close>

datatype request =
    GET string
  | POST string json
  | PUT string json
  | POST_STREAMING string json
  | POST_FORM string string

record ModelInfo =
  name :: string
  provider :: string
  providerId :: string
  serverName :: string
  serverId :: string

record LibraryPageContext =
  pageId :: "string option"
  pageName :: "string option"
  pageRoute :: "string option"
  isStudioPage :: "bool option"

datatype approval_action = Approve | Reject

record MCPApprovalDecision =
  action :: approval_action
  decision_request_id :: "string option"
  decision_tool :: "string option"
  decision_arguments :: "json option"

datatype scope_mode = ScopeNone | ScopeProject

datatype MCPProjectSource = Ui | PromptAuto | BackendSuggested | ConfigDefault

record MCPRequestParams =
  mcp_tools_enabled :: bool
  mcp_scope_mode :: scope_mode
  mcp_project_slug :: "string option"
  mcp_project_name :: "string option"
  mcp_project_lifecycle :: "string option"
  mcp_project_source :: MCPProjectSource
  mcp_plugin_slug :: "string option"
  mcp_approval :: "MCPApprovalDecision option"

text \<open>
  A callback works on the caller's state \<open>'st\<close>. It returns the state it leaves behind
  and, when it throws, the error.
\<close>

record 'st callbacks =
  onChunk :: "string \<Rightarrow> 'st \<Rightarrow> error option \<times> 'st"
  onConversationId :: "string \<Rightarrow> 'st \<Rightarrow> error option \<times> 'st"
  onMetadataEvent :: "json \<Rightarrow> 'st \<Rightarrow> error option \<times> 'st"

text \<open>The options of \<open>sendPrompt\<close> without the three callbacks, which are passed
  beside them. The fields that the component state also has carry the suffix \<open>_opt\<close>.
  The abort controller is left out: it acts on the transport only.\<close>

record SendCapturePromptOptions =
  prompt :: string
  selectedModel_opt :: ModelInfo
  conversationId_opt :: "string option"
  conversationType_opt :: string
  pageContext_opt :: "LibraryPageContext option"
  useStreaming :: bool
  mcpParams :: MCPRequestParams
  approvalDecision :: "MCPApprovalDecision option"

text \<open>The service object: its cached user id, the requests it has issued so far (the
  newest last), and the state of the caller that the callbacks work on.\<close>

record 'st service =
  currentUserId :: "string option"
  requests :: "request list"
  caller :: "'st"

subsection \<open>Objects sent over the wire\<close>

definition opt_entry :: "string \<Rightarrow> json option \<Rightarrow> (string \<times> json) list" where
  "opt_entry k v = (case v of None \<Rightarrow> [] | Some x \<Rightarrow> [(k, x)])"

definition decision_json :: "MCPApprovalDecision \<Rightarrow> json" where
  "decision_json d =
     JObj ([(''action'', JStr (case action d of Approve \<Rightarrow> ''approve'' | Reject \<Rightarrow> ''reject''))]
           @ opt_entry ''request_id'' (map_option JStr (decision_request_id d))
           @ opt_entry ''tool'' (map_option JStr (decision_tool d))
           @ opt_entry ''arguments'' (decision_arguments d))"

definition source_text :: "MCPProjectSource \<Rightarrow> string" where
  "source_text s =
     (case s of Ui \<Rightarrow> ''ui'' | PromptAuto \<Rightarrow> ''prompt_auto''
      | BackendSuggested \<Rightarrow> ''backend_suggested'' | ConfigDefault \<Rightarrow> ''config_default'')"

definition mcp_entries :: "MCPRequestParams \<Rightarrow> (string \<times> json) list" where
  "mcp_entries p =
     [(''mcp_tools_enabled'', JBool (mcp_tools_enabled p)),
      (''mcp_scope_mode'', JStr (case mcp_scope_mode p of ScopeNone \<Rightarrow> ''none'' | ScopeProject \<Rightarrow> ''project''))]
     @ opt_entry ''mcp_project_slug'' (map_option JStr (mcp_project_slug p))
     @ opt_entry ''mcp_project_name'' (map_option JStr (mcp_project_name p))
     @ opt_entry ''mcp_project_lifecycle'' (map_option JStr (mcp_project_lifecycle p))
     @ [(''mcp_project_source'', JStr (source_text (mcp_project_source p)))]
     @ opt_entry ''mcp_plugin_slug'' (map_option JStr (mcp_plugin_slug p))
     @ opt_entry ''mcp_approval'' (map_option decision_json (mcp_approval p))"

text \<open>\<open>params\<close>: the two generation parameters, the caller's MCP parameters spread over
  them, and the approval decision when there is one.\<close>

definition build_params :: "SendCapturePromptOptions \<Rightarrow> json" where
  "build_params options =
     (let params = spread [(''temperature'', JNum ''0.3''), (''max_tokens'', JNum ''2048'')]
                          (mcp_entries (mcpParams options))
      in JObj (case approvalDecision options of
                 None \<Rightarrow> params
               | Some d \<Rightarrow> AList.update ''mcp_approval'' (decision_json d) params))"

definition page_entries :: "env \<Rightarrow> LibraryPageContext option \<Rightarrow> (string \<times> json) list" where
  "page_entries e pc =
     (case pc of
        None \<Rightarrow> []
      | Some c \<Rightarrow>
          (case pageId c of
             None \<Rightarrow> []
           | Some pid \<Rightarrow>
               [(''page_id'', JStr pid),
                (''page_context'',
                 JStr (stringify e
                   (JObj (opt_entry ''pageName'' (map_option JStr (pageName c))
                          @ opt_entry ''pageRoute'' (map_option JStr (pageRoute c))
                          @ opt_entry ''isStudioPage'' (map_option JBool (isStudioPage c))))))]))"

definition str_or :: "string \<Rightarrow> string \<Rightarrow> string" where
  "str_or a b = (if a \<noteq> [] then a else b)"

definition build_request :: "env \<Rightarrow> string option \<Rightarrow> SendCapturePromptOptions \<Rightarrow> json" where
  "build_request e uid options =
     (let prompt = str_or (trim (prompt options)) ''Continue.''
      in JObj ([(''provider'', JStr (provider (selectedModel_opt options))),
                (''settings_id'', JStr (providerId (selectedModel_opt options))),
                (''server_id'', JStr (serverId (selectedModel_opt options))),
                (''model'', JStr (name (selectedModel_opt options))),
                (''messages'', JArr [JObj [(''role'', JStr ''user''), (''content'', JStr prompt)]]),
                (''params'', build_params options),
                (''stream'', JBool (useStreaming options)),
                (''user_id'', JStr (case uid of None \<Rightarrow> ''current'' | Some u \<Rightarrow> str_or u ''current'')),
                (''conversation_id'', (case conversationId_opt options of None \<Rightarrow> JNull | Some c \<Rightarrow> JStr c)),
                (''conversation_type'', JStr (conversationType_opt options))]
               @ page_entries e (pageContext_opt options)))"

subsection \<open>\<open>initializeUserId\<close>\<close>

definition initializeUserId :: "api_service \<Rightarrow> 'st service \<Rightarrow> 'st service" where
  "initializeUserId api svc =
     (if (case currentUserId svc of None \<Rightarrow> False | Some u \<Rightarrow> u \<noteq> []) then svc
      else case api_get api of
        None \<Rightarrow> svc\<lparr>currentUserId := None\<rparr>
      | Some g \<Rightarrow>
          (let svc1 = svc\<lparr>requests := requests svc @ [GET ''/api/v1/auth/me'']\<rparr>
           in case g ''/api/v1/auth/me'' of
                Inl err \<Rightarrow> svc1\<lparr>currentUserId := None\<rparr>
              | Inr response \<Rightarrow>
                  (let payload = normalizeApiPayload response;
                       userId = js_or (js_or (opt_get (Some payload) ''id'')
                                             (opt_get (Some payload) ''user_id'')) (Some JNull)
                   in svc1\<lparr>currentUserId := as_string userId\<rparr>)))"

subsection \<open>The streaming branch\<close>

definition is_metadata_type :: "string \<Rightarrow> bool" where
  "is_metadata_type t \<longleftrightarrow>
     t = ''project_scope_suggested'' \<or> t = ''project_scope_selected'' \<or>
     t = ''tooling_state'' \<or> t = ''tool_call'' \<or> t = ''tool_result'' \<or>
     t = ''auto_continue'' \<or> t = ''approval_request'' \<or> t = ''approval_required'' \<or>
     t = ''approval_resolution'' \<or> t = ''orchestration_context_error''"

definition has_metadata_type :: "json \<Rightarrow> bool" where
  "has_metadata_type parsed \<longleftrightarrow>
     is_object (Some parsed) \<and>
     (case as_string (get parsed ''type'') of None \<Rightarrow> False | Some t \<Rightarrow> is_metadata_type t)"

definition known_id :: "string option \<Rightarrow> bool" where
  "known_id c = (case c of None \<Rightarrow> False | Some s \<Rightarrow> s \<noteq> [])"

text \<open>One record of a frame. Everything after the \<open>[DONE]\<close> test runs inside the
  \<open>try\<close>: a text that does not parse, and a callback that throws, end the record and
  nothing else.\<close>

definition payloadLine_of :: "string \<Rightarrow> string" where
  "payloadLine_of line = (if startsWith line ''data: '' then slice_from line 6 else line)"

definition handle_line :: "env \<Rightarrow> 'st callbacks \<Rightarrow> string option \<Rightarrow> string \<Rightarrow> 'st \<Rightarrow> 'st" where
  "handle_line e cb convId line st =
     (let payloadLine = payloadLine_of line
      in if payloadLine = [] \<or> payloadLine = ''[DONE]'' then st
         else case parse e payloadLine of
           None \<Rightarrow> st
         | Some parsed \<Rightarrow>
             (case (if truthy (opt_get (Some parsed) ''conversation_id'') \<and> \<not> known_id convId
                    then onConversationId cb (js_String (opt_get (Some parsed) ''conversation_id'')) st
                    else (None, st)) of
                (Some err, st1) \<Rightarrow> st1
              | (None, st1) \<Rightarrow>
                  (if has_metadata_type parsed then snd (onMetadataEvent cb parsed st1)
                   else let text = extractTextFromData (Some parsed)
                        in if text \<noteq> [] then snd (onChunk cb text st1) else st1)))"

definition frame_lines :: "string \<Rightarrow> string list" where
  "frame_lines chunk = filter (\<lambda>line. length (trim line) > 0) (split_lines chunk)"

definition handle_frame :: "env \<Rightarrow> 'st callbacks \<Rightarrow> string option \<Rightarrow> 'st \<Rightarrow> string \<Rightarrow> 'st" where
  "handle_frame e cb convId st chunk =
     foldl (\<lambda>s line. handle_line e cb convId line s) st (frame_lines chunk)"

subsection \<open>The single-shot branch\<close>

text \<open>The callbacks of the single-shot branch run outside any \<open>try\<close>: the first one that
  throws ends the call with its error.\<close>

definition call_if :: "bool \<Rightarrow> ('st \<Rightarrow> error option \<times> 'st) \<Rightarrow> error option \<times> 'st \<Rightarrow> error option \<times> 'st" where
  "call_if c f r = (case r of (Some err, st) \<Rightarrow> (Some err, st)
                    | (None, st) \<Rightarrow> if c then f st else (None, st))"

text \<open>The callbacks in the order of the source: conversation id, \<open>tooling_state\<close>,
  \<open>approval_required\<close>, \<open>approval_resolution\<close>, and the extracted text.\<close>

definition response_callbacks :: "'st callbacks \<Rightarrow> string option \<Rightarrow> json option \<Rightarrow> 'st \<Rightarrow> error option \<times> 'st" where
  "response_callbacks cb convId payload st =
     (let r1 = call_if (truthy (opt_get payload ''conversation_id'') \<and> \<not> known_id convId)
                 (onConversationId cb (js_String (opt_get payload ''conversation_id''))) (None, st);
          r2 = call_if (truthy (opt_get payload ''tooling_state''))
                 (onMetadataEvent cb
                    (JObj (spread [(''type'', JStr ''tooling_state'')]
                       (case opt_get payload ''tooling_state'' of None \<Rightarrow> [] | Some v \<Rightarrow> own_entries v)))) r1;
          r3 = call_if (truthy (opt_get payload ''approval_required'') \<and> truthy (opt_get payload ''approval_request''))
                 (onMetadataEvent cb
                    (JObj ([(''type'', JStr ''approval_required'')]
                           @ opt_entry ''approval_request'' (opt_get payload ''approval_request'')))) r2;
          r4 = call_if (truthy (opt_get payload ''approval_resolution''))
                 (onMetadataEvent cb
                    (JObj (spread [(''type'', JStr ''approval_resolution'')]
                       (case opt_get payload ''approval_resolution'' of None \<Rightarrow> [] | Some v \<Rightarrow> own_entries v)))) r3
      in call_if (extractTextFromData payload \<noteq> []) (onChunk cb (extractTextFromData payload)) r4)"

definition handle_response :: "'st callbacks \<Rightarrow> string option \<Rightarrow> json \<Rightarrow> 'st \<Rightarrow> (error + bool) \<times> 'st" where
  "handle_response cb convId response st =
     (let payload = Some (normalizeApiPayload response);
          text = extractTextFromData payload
      in case response_callbacks cb convId payload st of
           (Some err, st') \<Rightarrow> (Inl err, st')
         | (None, st') \<Rightarrow>
             (if text = [] \<and> \<not> truthy (opt_get payload ''approval_required'')
                 \<and> \<not> truthy (opt_get payload ''approval_resolution'')
              then (Inl (Error ''No response text received.''), st')
              else (Inr True, st')))"

subsection \<open>\<open>sendPrompt\<close>\<close>

definition chat_url :: string where
  "chat_url = ''/api/v1/ai/providers/chat''"

definition captureService_sendPrompt :: "env \<Rightarrow> api_service option \<Rightarrow> 'st callbacks \<Rightarrow> SendCapturePromptOptions
                          \<Rightarrow> 'st service \<Rightarrow> (error + bool) \<times> 'st service" where
  "captureService_sendPrompt e api_opt cb options svc0 =
     (case api_opt of
        None \<Rightarrow> (Inl (Error ''API service is not available.''), svc0)
      | Some api \<Rightarrow>
          (let svc = initializeUserId api svc0
           in case api_post api of
                None \<Rightarrow> (Inl (Error ''API service does not support POST requests.''), svc)
              | Some post \<Rightarrow>
                  (let requestPayload = build_request e (currentUserId svc) options
                   in case (if useStreaming options then api_postStreaming api else None) of
                        Some postStreaming \<Rightarrow>
                          (let svc1 = svc\<lparr>requests := requests svc @ [POST_STREAMING chat_url requestPayload]\<rparr>;
                               (frames, rejection) = postStreaming chat_url requestPayload;
                               st' = foldl (handle_frame e cb (conversationId_opt options)) (caller svc1) frames
                           in case rejection of
                                Some err \<Rightarrow> (Inl err, svc1\<lparr>caller := st'\<rparr>)
                              | None \<Rightarrow> (Inr True, svc1\<lparr>caller := st'\<rparr>))
                      | None \<Rightarrow>
                          (let svc1 = svc\<lparr>requests := requests svc @ [POST chat_url requestPayload]\<rparr>
                           in case post chat_url requestPayload of
                                Inl err \<Rightarrow> (Inl err, svc1)
                              | Inr response \<Rightarrow>
                                  (let (res, st') = handle_response cb (conversationId_opt options) response (caller svc1)
                                   in (res, svc1\<lparr>caller := st'\<rparr>))))))"

subsection \<open>Callbacks that record their calls\<close>

datatype call = Chunk string | ConversationId string | MetadataEvent json

definition recording :: "call list callbacks" where
  "recording = \<lparr> onChunk = (\<lambda>c tr. (None, tr @ [Chunk c])),
                 onConversationId = (\<lambda>c tr. (None, tr @ [ConversationId c])),
                 onMetadataEvent = (\<lambda>ev tr. (None, tr @ [MetadataEvent ev])) \<rparr>"

section \<open>The capture component\<close>

text \<open>The message, scope and approval records of the source. \<open>msg_id\<close> is the \<open>id\<close> of a
  message and \<open>scope_name\<close> the \<open>name\<close> of a scope option.\<close>

datatype sender = User | Ai | System

record CaptureMessage =
  msg_id :: string
  sender :: sender
  content :: string
  timestamp :: string
  isStreaming :: "bool option"
  isError :: "bool option"

datatype scope_root = Projects | Life

record ScopeOption =
  scope_name :: string
  slug :: string
  lifecycle :: string
  path :: string
  scope_root :: "scope_root option"
  has_agent_md :: bool
  has_spec :: bool
  has_build_plan :: bool
  has_decisions :: bool

datatype approval_status = Pending | Approved | Rejected

record MCPApprovalRequest =
  request_id :: "string option"
  tool :: string
  summary :: string
  arguments :: "json option"
  status :: approval_status

datatype theme = Light | Dark

datatype tone = Success | Failure

record LibraryCaptureState =
  theme :: theme
  modelsLoading :: bool
  scopesLoading :: bool
  models :: "ModelInfo list"
  selectedModel :: "ModelInfo option"
  savedDefaultModelKey :: "string option"
  isSavingDefaultModel :: bool
  defaultModelStatus :: "string option"
  defaultModelStatusTone :: "tone option"
  scopeOptions :: "ScopeOption list"
  scopeEnabled :: bool
  selectedScopePath :: "string option"
  conversationId :: "string option"
  messages :: "CaptureMessage list"
  inputText :: string
  isSubmitting :: bool
  isProcessingTranscript :: bool
  error :: "string option"
  transcriptError :: "string option"
  pendingApproval :: "MCPApprovalRequest option"
  activityStatus :: "string option"

text \<open>The properties the modelled methods read. \<open>current_page_context\<close> is what
  \<open>services.pageContext.getCurrentPageContext()\<close> gives, \<open>None\<close> when there is no such
  service, when it throws or when it returns no object.\<close>

record LibraryCaptureProps =
  moduleId :: "string option"
  conversationType :: "string option"
  conversation_type :: "string option"
  enableStreaming :: "bool option"
  enable_streaming :: "bool option"
  defaultModelKey :: "string option"
  default_model_key :: "string option"
  defaultModelProvider :: "string option"
  default_model_provider :: "string option"
  defaultModelServerId :: "string option"
  default_model_server_id :: "string option"
  defaultModelName :: "string option"
  default_model_name :: "string option"
  defaultTranscriptSource :: "string option"
  default_transcript_source :: "string option"
  services_api :: "api_service option"
  current_page_context :: "LibraryPageContext option"

text \<open>
  The component: its properties, its React state, and a counter standing for the time
  and random suffix of \<open>generateId\<close>, so that every generated id is new. \<open>setState\<close> is
  applied at once, in program order.
\<close>

record LibraryCapture =
  props :: LibraryCaptureProps
  state :: LibraryCaptureState
  id_counter :: nat

definition setState :: "(LibraryCaptureState \<Rightarrow> LibraryCaptureState) \<Rightarrow> LibraryCapture \<Rightarrow> LibraryCapture" where
  "setState f c = c\<lparr>state := f (state c)\<rparr>"

definition generateId :: "string \<Rightarrow> LibraryCapture \<Rightarrow> string \<times> LibraryCapture" where
  "generateId prefix c = (prefix @ ''_'' @ dec (id_counter c), c\<lparr>id_counter := Suc (id_counter c)\<rparr>)"

definition appendMessage :: "CaptureMessage \<Rightarrow> LibraryCapture \<Rightarrow> LibraryCapture" where
  "appendMessage m c = setState (\<lambda>s. s\<lparr>messages := messages s @ [m]\<rparr>) c"

definition updateMessage :: "string \<Rightarrow> (CaptureMessage \<Rightarrow> CaptureMessage) \<Rightarrow> LibraryCapture \<Rightarrow> LibraryCapture" where
  "updateMessage messageId updater c =
     setState (\<lambda>s. s\<lparr>messages := map (\<lambda>m. if msg_id m = messageId then updater m else m) (messages s)\<rparr>) c"

text \<open>\<open>appendMessage({ id: generateId(prefix), sender, content, timestamp })\<close>.\<close>

definition append_new :: "env \<Rightarrow> string \<Rightarrow> sender \<Rightarrow> string \<Rightarrow> bool option \<Rightarrow> bool option
                          \<Rightarrow> LibraryCapture \<Rightarrow> LibraryCapture" where
  "append_new e prefix snd_by text streaming err c =
     (let (i, c1) = generateId prefix c
      in appendMessage \<lparr> msg_id = i, sender = snd_by, content = text, timestamp = now_iso e,
                          isStreaming = streaming, isError = err \<rparr> c1)"

subsection \<open>Configured values\<close>

definition getConfiguredStringValue :: "string option \<Rightarrow> string option \<Rightarrow> string" where
  "getConfiguredStringValue primaryValue fallbackValue =
     (let normalizedPrimary = (case primaryValue of Some s \<Rightarrow> trim s | None \<Rightarrow> [])
      in if normalizedPrimary \<noteq> [] then normalizedPrimary
         else (case fallbackValue of Some s \<Rightarrow> trim s | None \<Rightarrow> []))"

definition getConfiguredBooleanValue :: "bool option \<Rightarrow> bool option \<Rightarrow> bool option" where
  "getConfiguredBooleanValue primaryValue fallbackValue =
     (case primaryValue of Some b \<Rightarrow> Some b | None \<Rightarrow> fallbackValue)"

definition getEffectiveConversationType :: "LibraryCaptureProps \<Rightarrow> string" where
  "getEffectiveConversationType p =
     str_or (getConfiguredStringValue (conversationType p) (conversation_type p)) ''capture''"

definition getDefaultTranscriptSource :: "LibraryCaptureProps \<Rightarrow> string" where
  "getDefaultTranscriptSource p =
     str_or (getConfiguredStringValue (defaultTranscriptSource p) (default_transcript_source p))
            ''capture-upload''"

subsection \<open>The configured default model\<close>






subsection \<open>Metadata events\<close>

text \<open>\<open>String(v || d)\<close>.\<close>

definition String_or :: "json option \<Rightarrow> string \<Rightarrow> string" where
  "String_or v d = (if truthy v then js_String v else d)"

definition setActivity :: "string \<Rightarrow> LibraryCapture \<Rightarrow> LibraryCapture" where
  "setActivity a c = setState (\<lambda>s. s\<lparr>activityStatus := Some a\<rparr>) c"

definition resolution_status :: "string \<Rightarrow> string \<Rightarrow> string" where
  "resolution_status status_text tool_name =
     (if status_text = ''approved'' then ''Approved '' @ tool_name @ ''. Continuing...''
      else if status_text = ''rejected'' then ''Denied '' @ tool_name @ ''.''
      else ''Approval resolved for '' @ tool_name @ ''.'')"

text \<open>The \<open>approval_request\<close> and \<open>approval_required\<close> branch. Reading a property of
  an \<open>approval_request\<close> member that is missing or \<open>null\<close> throws.\<close>

definition handle_approval_request :: "env \<Rightarrow> string \<Rightarrow> json \<Rightarrow> LibraryCapture
                                        \<Rightarrow> error option \<times> LibraryCapture" where
  "handle_approval_request e t event c =
     (let rawApproval = (if t = ''approval_required'' then get event ''approval_request'' else Some event)
      in case rawApproval of
           None \<Rightarrow> (Some (TypeError ''Cannot read properties of undefined''), c)
         | Some JNull \<Rightarrow> (Some (TypeError ''Cannot read properties of null''), c)
         | Some raw \<Rightarrow>
             (let tool0 = trim (String_or (get raw ''tool'') []);
                  normalizedApproval =
                    \<lparr> request_id = as_string (get raw ''request_id''),
                      tool = (if tool0 = [] then ''mutating_tool'' else tool0),
                      summary = (case as_string (get raw ''summary'') of
                                   Some s \<Rightarrow> if trim s \<noteq> [] then trim s
                                             else ''Approval required before executing mutating tool call.''
                                 | None \<Rightarrow> ''Approval required before executing mutating tool call.''),
                      arguments = (if is_object (get raw ''arguments'') then get raw ''arguments'' else None),
                      status = Pending \<rparr>;
                  c1 = setState (\<lambda>s. s\<lparr>pendingApproval := Some normalizedApproval,
                                         activityStatus := Some (''Awaiting approval for '' @ tool normalizedApproval @ ''...'')\<rparr>) c
              in (None, append_new e ''approval-required'' System
                          (''Approval required for tool: '' @ tool normalizedApproval) None None c1)))"

text \<open>The \<open>approval_resolution\<close> branch: the pending approval goes when there is none,
  when either side has no id, or when the two ids are equal.\<close>

definition resolvedId_of :: "json \<Rightarrow> string" where
  "resolvedId_of event = (case as_string (get event ''request_id'') of Some r \<Rightarrow> r | None \<Rightarrow> [])"

definition pendingId_of :: "MCPApprovalRequest \<Rightarrow> string" where
  "pendingId_of a = (case request_id a of Some r \<Rightarrow> r | None \<Rightarrow> [])"

definition handle_approval_resolution :: "env \<Rightarrow> json \<Rightarrow> LibraryCapture \<Rightarrow> LibraryCapture" where
  "handle_approval_resolution e event c =
     (let status = toLowerCase (String_or (get event ''status'') []);
          tool_name = str_or (trim (String_or (get event ''tool'') [])) ''mutating_tool'';
          content = (if status = ''approved'' then ''Approved: '' @ tool_name
                     else if status = ''rejected'' then ''Denied: '' @ tool_name
                     else ''Approval resolved for: '' @ tool_name);
          c1 = append_new e ''approval-resolution'' System content None None c
      in setState (\<lambda>prevState.
           case pendingApproval prevState of
             None \<Rightarrow> prevState\<lparr>pendingApproval := None,
                                activityStatus := Some (resolution_status status tool_name)\<rparr>
           | Some pending \<Rightarrow>
               (let pendingId = pendingId_of pending;
                    resolvedId = resolvedId_of event
                in if pendingId = [] \<or> resolvedId = [] \<or> pendingId = resolvedId
                   then prevState\<lparr>pendingApproval := None,
                                    activityStatus := Some (resolution_status status tool_name)\<rparr>
                   else prevState)) c1)"

definition handleMetadataEvent :: "env \<Rightarrow> json \<Rightarrow> LibraryCapture \<Rightarrow> error option \<times> LibraryCapture" where
  "handleMetadataEvent e event c =
     (if \<not> is_object (Some event) then (None, c)
      else case as_string (get event ''type'') of
        None \<Rightarrow> (None, c)
      | Some t \<Rightarrow>
          if t = ''tooling_state'' then
            (let stopReason = toLowerCase (trim (String_or (get event ''tool_loop_stop_reason'') []))
             in if stopReason = ''approval_required''
                then (None, setActivity ''Awaiting approval for a write action...'' c)
                else if stopReason = ''provider_timeout''
                then (None, setActivity ''Model response timed out. Retry when ready.'' c)
                else if stopReason = ''missing_orchestration_context''
                then (None, setActivity ''Missing required scope context for this write.'' c)
                else if get event ''tool_loop_enabled'' = Some (JBool True)
                then (None, setActivity ''Planning tool actions...'' c)
                else (None, c))
          else if t = ''tool_call'' then
            (let toolName = str_or (trim (String_or (get event ''name'') ''tool'')) ''tool''
             in (None, setActivity (''Running tool: '' @ toolName @ ''...'') c))
          else if t = ''tool_result'' then
            (let toolName = str_or (trim (String_or (get event ''name'') ''tool'')) ''tool'';
                 success = (get event ''ok'' \<noteq> Some (JBool False))
             in (None, setActivity (if success then ''Tool completed: '' @ toolName @ ''.''
                                    else ''Tool failed: '' @ toolName @ ''.'') c))
          else if t = ''auto_continue'' then
            (None, setActivity (''Continuing response (pass '' @ String_or (get event ''pass'') ''next'' @ '')...'') c)
          else if t = ''orchestration_context_error'' then
            (None, setActivity ''Write is blocked until scope context is ready.'' c)
          else if t = ''approval_request'' \<or> t = ''approval_required'' then
            handle_approval_request e t event c
          else if t = ''approval_resolution'' then
            (None, handle_approval_resolution e event c)
          else if t = ''project_scope_selected'' then
            (let selectedPath = (case as_string (get event ''scope_path'') of
                                   Some s \<Rightarrow> normalizePath s | None \<Rightarrow> [])
             in if selectedPath = [] then (None, c)
                else case find (\<lambda>entry. toLowerCase (normalizePath (path entry)) = toLowerCase selectedPath)
                               (scopeOptions (state c)) of
                       Some matched \<Rightarrow>
                         (None, setState (\<lambda>s. s\<lparr>scopeEnabled := True,
                                                  selectedScopePath := Some selectedPath,
                                                  activityStatus := Some (''Using scope: '' @ scope_name matched @ ''.'')\<rparr>) c)
                     | None \<Rightarrow> (None, c))
          else (None, c))"

subsection \<open>Sending a prompt\<close>

definition getSelectedScopeOption :: "LibraryCaptureState \<Rightarrow> ScopeOption option" where
  "getSelectedScopeOption s =
     (case selectedScopePath s of
        None \<Rightarrow> None
      | Some p \<Rightarrow>
          if p = [] then None
          else find (\<lambda>entry. toLowerCase (normalizePath (path entry)) = toLowerCase p) (scopeOptions s))"

definition buildMcpParams :: "LibraryCaptureState \<Rightarrow> MCPApprovalDecision option \<Rightarrow> MCPRequestParams" where
  "buildMcpParams s decision =
     (let selectedScope = (if scopeEnabled s then getSelectedScopeOption s else None);
          selectedScopePath1 = (case selectedScope of
                                  Some sc \<Rightarrow> if normalizePath (path sc) \<noteq> [] then Some (normalizePath (path sc)) else None
                                | None \<Rightarrow> None)
      in \<lparr> mcp_tools_enabled = True,
           mcp_scope_mode = (case selectedScopePath1 of Some p \<Rightarrow> ScopeProject | None \<Rightarrow> ScopeNone),
           mcp_project_slug = selectedScopePath1,
           mcp_project_name = map_option scope_name selectedScope,
           mcp_project_lifecycle =
             (case selectedScope of
                Some sc \<Rightarrow> Some (str_or (lifecycle sc) ''active'')
              | None \<Rightarrow> Some ''active''),
           mcp_project_source = Ui,
           mcp_plugin_slug = Some ''BrainDriveLibraryPlugin'',
           mcp_approval = decision \<rparr>)"

definition message_of :: "error \<Rightarrow> string" where
  "message_of err = (case err of Error m \<Rightarrow> m | TypeError m \<Rightarrow> m | SyntaxError m \<Rightarrow> m)"

text \<open>The callbacks the component hands to the service. The flag beside the component
  is the local \<open>hasReceivedChunk\<close> of the call.\<close>

definition component_callbacks :: "env \<Rightarrow> string \<Rightarrow> (LibraryCapture \<times> bool) callbacks" where
  "component_callbacks e assistantMessageId =
     \<lparr> onChunk = (\<lambda>chunk (c, hasReceivedChunk).
         (let (c1, h1) =
                (if \<not> hasReceivedChunk \<and> trim chunk \<noteq> []
                 then (setState (\<lambda>prevState. prevState\<lparr>activityStatus :=
                          (case pendingApproval prevState of
                             Some a \<Rightarrow> activityStatus prevState
                           | None \<Rightarrow> Some ''Streaming response...'')\<rparr>) c, True)
                 else (c, hasReceivedChunk))
          in (None, (updateMessage assistantMessageId (\<lambda>m. m\<lparr>content := content m @ chunk\<rparr>) c1, h1)))),
       onConversationId = (\<lambda>cid (c, h). (None, (setState (\<lambda>s. s\<lparr>conversationId := Some cid\<rparr>) c, h))),
       onMetadataEvent = (\<lambda>event (c, h). (case handleMetadataEvent e event c of (r, c1) \<Rightarrow> (r, (c1, h)))) \<rparr>"

record send_options =
  send_approvalDecision :: "MCPApprovalDecision option"
  userLabel :: "string option"

text \<open>The component with its capture service: the service's \<open>caller\<close> is the
  component.\<close>

type_synonym capture = "LibraryCapture service"

definition on_component :: "(LibraryCapture \<Rightarrow> LibraryCapture) \<Rightarrow> capture \<Rightarrow> capture" where
  "on_component f w = w\<lparr>caller := f (caller w)\<rparr>"

definition with_flag :: "bool \<Rightarrow> capture \<Rightarrow> (LibraryCapture \<times> bool) service" where
  "with_flag h w = \<lparr> currentUserId = currentUserId w, requests = requests w, caller = (caller w, h) \<rparr>"

definition without_flag :: "(LibraryCapture \<times> bool) service \<Rightarrow> capture" where
  "without_flag w = \<lparr> currentUserId = currentUserId w, requests = requests w, caller = fst (caller w) \<rparr>"

definition LibraryCapture_sendPrompt :: "env \<Rightarrow> string \<Rightarrow> send_options \<Rightarrow> capture \<Rightarrow> capture" where
  "LibraryCapture_sendPrompt e prompt0 opts w =
     (case selectedModel (state (caller w)) of
        None \<Rightarrow> on_component (setState (\<lambda>s. s\<lparr>error := Some ''Select a model before sending capture input.''\<rparr>)) w
      | Some model \<Rightarrow>
          (let promptToSend = trim prompt0
           in if promptToSend = [] then w
              else
                (let userContent = (case userLabel opts of
                                      Some l \<Rightarrow> if trim l \<noteq> [] then trim l else promptToSend
                                    | None \<Rightarrow> promptToSend);
                     c1 = append_new e ''user'' User userContent None None (caller w);
                     (assistantMessageId, c2) = generateId ''assistant'' c1;
                     c3 = appendMessage \<lparr> msg_id = assistantMessageId, sender = Ai, content = [],
                                           timestamp = now_iso e, isStreaming = Some True, isError = None \<rparr> c2;
                     c4 = setState (\<lambda>s. s\<lparr>isSubmitting := True, error := None,
                                           activityStatus := Some ''Thinking...''\<rparr>) c3;
                     options = \<lparr> prompt = promptToSend,
                                 selectedModel_opt = model,
                                 conversationId_opt = conversationId (state c4),
                                 conversationType_opt = getEffectiveConversationType (props c4),
                                 pageContext_opt = current_page_context (props c4),
                                 useStreaming = (getConfiguredBooleanValue (enableStreaming (props c4))
                                                   (enable_streaming (props c4)) \<noteq> Some False),
                                 mcpParams = buildMcpParams (state c4) (send_approvalDecision opts),
                                 approvalDecision = send_approvalDecision opts \<rparr>;
                     (result, w1) = captureService_sendPrompt e (services_api (props c4))
                                      (component_callbacks e assistantMessageId) options
                                      (with_flag False (w\<lparr>caller := c4\<rparr>));
                     w2 = without_flag w1;
                     c5 = (case result of
                             Inr ok \<Rightarrow>
                               setState (\<lambda>prevState. prevState\<lparr>activityStatus :=
                                   (case pendingApproval prevState of
                                      Some a \<Rightarrow> Some (''Awaiting approval for '' @ tool a @ ''...'')
                                    | None \<Rightarrow> Some ''Response complete.'')\<rparr>)
                                 (updateMessage assistantMessageId
                                    (\<lambda>m. m\<lparr>content := str_or (trim (content m)) ''(No textual response)'',
                                            isStreaming := Some False\<rparr>) (caller w2))
                           | Inl err \<Rightarrow>
                               setState (\<lambda>s. s\<lparr>error := Some (message_of err),
                                                activityStatus := Some (''Error: '' @ message_of err)\<rparr>)
                                 (updateMessage assistantMessageId
                                    (\<lambda>existing. existing\<lparr>content := ''Error: '' @ message_of err,
                                                          isStreaming := Some False, isError := Some True\<rparr>)
                                    (caller w2)))
                 in w2\<lparr>caller := setState (\<lambda>s. s\<lparr>isSubmitting := False, inputText := []\<rparr>) c5\<rparr>)))"

definition no_send_options :: send_options where
  "no_send_options = \<lparr> send_approvalDecision = None, userLabel = None \<rparr>"

definition handleSend :: "env \<Rightarrow> capture \<Rightarrow> capture" where
  "handleSend e w =
     (let s = state (caller w)
      in if isSubmitting s \<or> isProcessingTranscript s then w
         else if trim (inputText s) = [] then w
         else LibraryCapture_sendPrompt e (trim (inputText s)) no_send_options w)"

definition handleApprovalDecision :: "env \<Rightarrow> approval_action \<Rightarrow> capture \<Rightarrow> capture" where
  "handleApprovalDecision e act w =
     (let s = state (caller w)
      in if isSubmitting s then w
         else case pendingApproval s of
           None \<Rightarrow> w
         | Some pending \<Rightarrow>
             LibraryCapture_sendPrompt e (if act = Approve then ''Approve.'' else ''Deny.'')
               \<lparr> send_approvalDecision =
                   Some \<lparr> action = act, decision_request_id = request_id pending,
                          decision_tool = Some (tool pending), decision_arguments = arguments pending \<rparr>,
                 userLabel = Some (if act = Approve then ''Approve'' else ''Deny'') \<rparr> w)"

subsection \<open>Scope options\<close>

text \<open>
  \<open>slugify\<close> of the capture service:
  \<^verbatim>\<open>String(value || "").trim().toLowerCase().replace(/[^a-z0-9]+/g, "-")
      .replace(/^-+|-+$/g, "").replace(/-{2,}/g, "-")\<close>
\<close>

function dash_runs :: "string \<Rightarrow> string" where
  "dash_runs [] = []"
| "dash_runs (c # cs) =
     (if \<not> is_lower_alnum c
      then CHR ''-'' # dash_runs (dropWhile (\<lambda>d. \<not> is_lower_alnum d) cs)
      else c # dash_runs cs)"
  by pat_completeness auto
termination
  by (relation "measure length") (auto simp: le_imp_less_Suc length_dropWhile_le)

function collapse_dashes :: "string \<Rightarrow> string" where
  "collapse_dashes [] = []"
| "collapse_dashes (c # cs) =
     (if c = CHR ''-''
      then CHR ''-'' # collapse_dashes (dropWhile (\<lambda>d. d = CHR ''-'') cs)
      else c # collapse_dashes cs)"
  by pat_completeness auto
termination
  by (relation "measure length") (auto simp: le_imp_less_Suc length_dropWhile_le)

definition strip_dashes :: "string \<Rightarrow> string" where
  "strip_dashes s =
     rev (dropWhile (\<lambda>c. c = CHR ''-'') (rev (dropWhile (\<lambda>c. c = CHR ''-'') s)))"

definition slugify :: "string \<Rightarrow> string" where
  "slugify v = collapse_dashes (strip_dashes (dash_runs (toLowerCase (trim v))))"

text \<open>\<open>s.split("/").pop()\<close>: what follows the last slash.\<close>

definition last_segment :: "string \<Rightarrow> string" where
  "last_segment s = rev (takeWhile (\<lambda>c. c \<noteq> CHR ''/'') (rev s))"

definition default_scope_path :: "scope_root \<Rightarrow> string \<Rightarrow> string" where
  "default_scope_path root s = (case root of Life \<Rightarrow> ''life/'' @ s | Projects \<Rightarrow> ''projects/active/'' @ s)"

text \<open>\<open>normalizeScopeOption\<close> of the capture service: the scope option made of one entry
  of the scope list the backend returns, \<open>None\<close> for \<open>null\<close>.\<close>

definition normalizeScopeOption :: "json \<Rightarrow> scope_root \<Rightarrow> ScopeOption option" where
  "normalizeScopeOption raw root =
     (case raw of
        JStr s \<Rightarrow>
          (let optionSlug = slugify s
           in if optionSlug = [] then None
              else Some \<lparr> scope_name = str_or (trim s) optionSlug, slug = optionSlug,
                          lifecycle = ''active'', path = default_scope_path root optionSlug,
                          scope_root = Some root, has_agent_md = False, has_spec = False,
                          has_build_plan = False, has_decisions = False \<rparr>)
      | other \<Rightarrow>
          (if \<not> is_object (Some raw) then None
           else
             (let candidatePath = normalizeScopePath
                    (String_or (js_or (get raw ''path'') (get raw ''scope_path'')) []);
                  candidateSlug = slugify
                    (String_or (js_or (js_or (js_or (get raw ''slug'') (get raw ''topic'')) (get raw ''name''))
                                      (Some (JStr (if candidatePath \<noteq> [] then last_segment candidatePath else []))))
                               []);
                  path0 = (if candidatePath = [] then default_scope_path root candidateSlug else candidatePath);
                  path1 = (if root = Life \<and> \<not> startsWith path0 ''life/''
                           then ''life/'' @ candidateSlug else path0);
                  normalizedPath = (if root = Projects \<and> \<not> startsWith path1 ''projects/''
                                    then ''projects/active/'' @ candidateSlug else path1)
              in if candidateSlug = [] then None
                 else Some \<lparr> scope_name = str_or (trim (String_or (js_or (js_or (get raw ''name'') (get raw ''topic''))
                                                                       (Some (JStr candidateSlug))) []))
                                                  candidateSlug,
                             slug = candidateSlug,
                             lifecycle = String_or (get raw ''lifecycle'') ''active'',
                             path = normalizedPath,
                             scope_root = Some root,
                             has_agent_md = truthy (get raw ''has_agent_md''),
                             has_spec = truthy (get raw ''has_spec''),
                             has_build_plan = truthy (get raw ''has_build_plan''),
                             has_decisions = truthy (get raw ''has_decisions'') \<rparr>)))"

text \<open>The \<open>onChange\<close> of the scope selector: the value of an option is the \<open>path\<close> of
  its scope, as the scope list has it.\<close>

definition scope_onChange :: "string \<Rightarrow> LibraryCapture \<Rightarrow> LibraryCapture" where
  "scope_onChange v c =
     (if v = ''__all__''
      then setState (\<lambda>s. s\<lparr>scopeEnabled := False, selectedScopePath := None\<rparr>) c
      else setState (\<lambda>s. s\<lparr>scopeEnabled := True, selectedScopePath := Some v\<rparr>) c)"

subsection \<open>Transcript upload\<close>

text \<open>\<open>processDocument\<close> of the capture service: the uploaded file goes to the document
  processor, whose answer must carry \<open>processing_success: true\<close> and a string
  \<open>extracted_text\<close>.\<close>

record upload_file =
  file_name :: string

definition processDocument :: "api_service option \<Rightarrow> upload_file \<Rightarrow> 'st service \<Rightarrow> (error + json) \<times> 'st service" where
  "processDocument api_opt file svc =
     (case api_opt of
        None \<Rightarrow> (Inl (Error ''API service is not available.''), svc)
      | Some api \<Rightarrow>
          (case api_post api of
             None \<Rightarrow> (Inl (Error ''API service does not support document uploads.''), svc)
           | Some post \<Rightarrow>
               (let svc1 = svc\<lparr>requests := requests svc @ [POST_FORM ''/api/v1/documents/process'' (file_name file)]\<rparr>
                in case post ''/api/v1/documents/process'' (JStr (file_name file)) of
                     Inl err \<Rightarrow> (Inl err, svc1)
                   | Inr response \<Rightarrow>
                       (let payload = normalizeApiPayload response
                        in if \<not> truthy (Some payload)
                              \<or> opt_get (Some payload) ''processing_success'' \<noteq> Some (JBool True)
                              \<or> as_string (opt_get (Some payload) ''extracted_text'') = None
                           then (Inl (Error (String_or (opt_get (Some payload) ''error'')
                                               ''Failed to process transcript file.'')), svc1)
                           else (Inr payload, svc1)))))"

definition truncation_marker :: string where
  "truncation_marker = [CHR 0x0A, CHR 0x0A] @ ''[TRUNCATED]''"

text \<open>\<open>text.length > 12000 ? `${text.slice(0, 12000)}\n\n[TRUNCATED]` : text\<close>\<close>

definition truncate_transcript :: "string \<Rightarrow> string" where
  "truncate_transcript text =
     (if length text > 12000 then slice text 0 12000 @ truncation_marker else text)"

definition transcript_header :: "string \<Rightarrow> string \<Rightarrow> string \<Rightarrow> string option \<Rightarrow> string list" where
  "transcript_header fname dateIso source scopePath =
     [''Capture transcript ingestion request.'',
      ''Use ingest_transcript to save this transcript in transcripts/YYYY-MM and update transcripts/index.md.'',
      ''Require explicit approval before executing the write.'',
      ''filename: '' @ fname,
      ''date: '' @ dateIso,
      ''source: '' @ source,
      (case scopePath of
         Some p \<Rightarrow> if p \<noteq> [] then ''project: '' @ p else ''project: capture''
       | None \<Rightarrow> ''project: capture''),
      [],
      ''Transcript content:'']"

definition transcript_prompt :: "string \<Rightarrow> string \<Rightarrow> string \<Rightarrow> string option \<Rightarrow> string \<Rightarrow> string" where
  "transcript_prompt fname dateIso source scopePath truncatedText =
     join_with [CHR 0x0A] (transcript_header fname dateIso source scopePath @ [truncatedText])"

text \<open>What the \<open>try\<close> block of \<open>handleTranscriptSelected\<close> does after the document came
  back: it builds the prompt, or throws when no text is left after trimming.\<close>

definition build_transcript_prompt :: "env \<Rightarrow> LibraryCapture \<Rightarrow> upload_file \<Rightarrow> json \<Rightarrow> error + string" where
  "build_transcript_prompt e c file processed =
     (let scopePath = (if scopeEnabled (state c) then selectedScopePath (state c) else None);
          dateIso = slice (now_iso e) 0 10;
          source = getDefaultTranscriptSource (props c);
          text = trim (String_or (get processed ''extracted_text'') [])
      in if text = [] then Inl (Error ''No transcript text was extracted from the uploaded file.'')
         else Inr (transcript_prompt (file_name file) dateIso source scopePath (truncate_transcript text)))"

definition transcript_failed :: "env \<Rightarrow> error \<Rightarrow> capture \<Rightarrow> capture" where
  "transcript_failed e err w =
     on_component (\<lambda>c. append_new e ''transcript-error'' System
                          (''Transcript upload failed: '' @ message_of err) None (Some True)
                          (setState (\<lambda>s. s\<lparr>transcriptError := Some (message_of err)\<rparr>) c)) w"

definition handleTranscriptSelected :: "env \<Rightarrow> upload_file option \<Rightarrow> capture \<Rightarrow> capture" where
  "handleTranscriptSelected e file_opt w =
     (case file_opt of
        None \<Rightarrow> w
      | Some file \<Rightarrow>
          (let w1 = on_component (setState (\<lambda>s. s\<lparr>isProcessingTranscript := True, transcriptError := None\<rparr>)) w;
               (processed, w2) = processDocument (services_api (props (caller w1))) file w1;
               w3 = (case processed of
                       Inl err \<Rightarrow> transcript_failed e err w2
                     | Inr payload \<Rightarrow>
                         (case build_transcript_prompt e (caller w2) file payload of
                            Inl err \<Rightarrow> transcript_failed e err w2
                          | Inr prompt1 \<Rightarrow>
                              LibraryCapture_sendPrompt e prompt1
                                \<lparr> send_approvalDecision = None,
                                  userLabel = Some (''Uploaded transcript: '' @ file_name file) \<rparr> w2))
           in on_component (setState (\<lambda>s. s\<lparr>isProcessingTranscript := False\<rparr>)) w3))"

section \<open>The page defaults service\<close>

definition LIBRARY_PLUGIN_SLUG :: string where
  "LIBRARY_PLUGIN_SLUG = ''BrainDriveLibraryPlugin''"

definition LIBRARY_CAPTURE_MODULE_NAME :: string where
  "LIBRARY_CAPTURE_MODULE_NAME = ''LibraryCapture''"

text \<open>\<open>normalizeToken\<close>, \<open>compactToken\<close> and \<open>looksLikeCaptureToken\<close> take any value and
  start from \<open>String(value || "")\<close>; on a string that is the string itself.\<close>

definition normalizeToken_str :: "string \<Rightarrow> string" where
  "normalizeToken_str s = toLowerCase (trim s)"

definition normalizeToken :: "json option \<Rightarrow> string" where
  "normalizeToken v = normalizeToken_str (String_or v [])"

definition compactToken_str :: "string \<Rightarrow> string" where
  "compactToken_str s = filter is_lower_alnum (normalizeToken_str s)"

definition looksLikeCaptureToken :: "string \<Rightarrow> bool" where
  "looksLikeCaptureToken s = includes_str (compactToken_str s) ''librarycapture''"

definition normalizePageId :: "string \<Rightarrow> string" where
  "normalizePageId pid = filter (\<lambda>c. c \<noteq> CHR ''-'') (trim pid)"

definition extractPageRecord :: "json \<Rightarrow> error + json" where
  "extractPageRecord response =
     (let payload = Some (normalizeApiPayload response);
          candidate = js_or (js_or (js_or (opt_get payload ''page'')
                                          (opt_get (opt_get payload ''data'') ''page''))
                                   (opt_get payload ''data'')) payload
      in case candidate of
           Some v \<Rightarrow> if is_object candidate then Inr v
                     else Inl (Error ''Unexpected page API response format.'')
         | None \<Rightarrow> Inl (Error ''Unexpected page API response format.''))"

definition parsePageContent :: "env \<Rightarrow> json option \<Rightarrow> error + json" where
  "parsePageContent e rawContent =
     (case (case rawContent of
              Some (JStr s) \<Rightarrow> (case parse e s of
                                   None \<Rightarrow> Inl (SyntaxError ''Unexpected token in JSON'')
                                 | Some v \<Rightarrow> Inr (Some v))
            | other \<Rightarrow> Inr other) of
        Inl err \<Rightarrow> Inl err
      | Inr parsed \<Rightarrow>
          (case parsed of
             Some v \<Rightarrow> if is_object parsed then Inr v
                       else Inl (Error ''Page content is not a valid JSON object.'')
           | None \<Rightarrow> Inl (Error ''Page content is not a valid JSON object.'')))"

definition buildDefaultModelConfig :: "ModelInfo \<Rightarrow> error + (string \<times> json) list" where
  "buildDefaultModelConfig model =
     (let provider1 = trim (provider model);
          serverId1 = trim (serverId model);
          modelName1 = trim (name model)
      in if provider1 = [] \<or> serverId1 = [] \<or> modelName1 = []
         then Inl (Error ''Selected model is missing provider, server, or model name.'')
         else Inr [(''default_model_key'', JStr (provider1 @ ''::'' @ serverId1 @ ''::'' @ modelName1)),
                   (''default_model_provider'', JStr provider1),
                   (''default_model_server_id'', JStr serverId1),
                   (''default_model_name'', JStr modelName1),
                   (''default_model_provider_id'', JStr (trim (providerId model))),
                   (''default_model_server_name'', JStr (trim (serverName model)))])"

fun requestedModuleMatches_loop :: "string \<Rightarrow> string \<Rightarrow> json option list \<Rightarrow> bool" where
  "requestedModuleMatches_loop requestedToken requestedCompact [] = False"
| "requestedModuleMatches_loop requestedToken requestedCompact (candidate # candidates) =
     (let token = normalizeToken candidate
      in if token = [] then requestedModuleMatches_loop requestedToken requestedCompact candidates
         else if token = requestedToken then True
         else let compact = compactToken_str token
              in if compact = [] \<or> requestedCompact = []
                 then requestedModuleMatches_loop requestedToken requestedCompact candidates
                 else if compact = requestedCompact \<or> includes_str compact requestedCompact
                         \<or> includes_str requestedCompact compact
                 then True
                 else requestedModuleMatches_loop requestedToken requestedCompact candidates)"

definition requestedModuleMatches :: "string \<Rightarrow> json option list \<Rightarrow> bool" where
  "requestedModuleMatches requestedModuleId candidates =
     (let requestedToken = normalizeToken_str requestedModuleId
      in if requestedToken = [] then False
         else requestedModuleMatches_loop requestedToken (compactToken_str requestedToken) candidates)"

definition isLibraryPluginToken :: "string \<Rightarrow> bool" where
  "isLibraryPluginToken v \<longleftrightarrow> normalizeToken_str v = normalizeToken_str LIBRARY_PLUGIN_SLUG"

text \<open>The \<open>config\<close> or \<open>args\<close> member of an entry when it is an object, else \<open>{}\<close>.\<close>

definition object_member :: "json \<Rightarrow> string \<Rightarrow> json" where
  "object_member v k = (if is_object (get v k) then (case get v k of Some o1 \<Rightarrow> o1 | None \<Rightarrow> JObj []) else JObj [])"

definition moduleDefinitionMatchesCaptureTarget :: "string \<Rightarrow> json \<Rightarrow> string \<Rightarrow> bool" where
  "moduleDefinitionMatchesCaptureTarget moduleKey moduleDefinition requestedModuleId =
     (let config = object_member moduleDefinition ''config'';
          moduleIdToken = normalizeToken (js_or (get moduleDefinition ''moduleId'') (get config ''moduleId''));
          moduleNameToken = normalizeToken
            (js_or (js_or (get moduleDefinition ''moduleName'') (get config ''moduleName''))
                   (get config ''displayName''));
          pluginToken = normalizeToken
            (js_or (js_or (js_or (js_or (js_or (get moduleDefinition ''pluginId'')
                                                (get moduleDefinition ''pluginSlug''))
                                         (get moduleDefinition ''plugin_id''))
                                  (get config ''pluginId''))
                           (get config ''pluginSlug''))
                   (get config ''plugin_id''));
          looksLikeCaptureModule =
            (looksLikeCaptureToken moduleIdToken \<or> looksLikeCaptureToken moduleNameToken
             \<or> looksLikeCaptureToken moduleKey)
      in if requestedModuleId \<noteq> [] \<and>
            requestedModuleMatches requestedModuleId
              [Some (JStr moduleKey), get moduleDefinition ''moduleId'', get moduleDefinition ''moduleName'',
               get config ''moduleId'', get config ''moduleName'']
         then True
         else if requestedModuleId \<noteq> [] \<and> \<not> looksLikeCaptureToken requestedModuleId
                 \<and> normalizeToken_str requestedModuleId \<noteq> normalizeToken_str LIBRARY_CAPTURE_MODULE_NAME
         then False
         else if \<not> isLibraryPluginToken pluginToken \<and> \<not> looksLikeCaptureModule then False
         else (moduleIdToken = normalizeToken_str LIBRARY_CAPTURE_MODULE_NAME
               \<or> moduleNameToken = normalizeToken_str LIBRARY_CAPTURE_MODULE_NAME
               \<or> looksLikeCaptureModule))"

definition layoutItemMatchesCaptureTarget :: "json \<Rightarrow> string \<Rightarrow> bool" where
  "layoutItemMatchesCaptureTarget layoutItem requestedModuleId =
     (let args = object_member layoutItem ''args'';
          argsModuleId = normalizeToken (get args ''moduleId'');
          argsModuleName = normalizeToken (get args ''moduleName'');
          argsDisplayName = normalizeToken (get args ''displayName'');
          layoutItemId = normalizeToken (js_or (get layoutItem ''i'') (get layoutItem ''moduleUniqueId''));
          pluginToken = normalizeToken
            (js_or (js_or (js_or (get layoutItem ''pluginId'') (get args ''pluginId''))
                          (get args ''pluginSlug''))
                   (get args ''plugin_id''));
          looksLikeCaptureLayout =
            (argsDisplayName = ''library capture'' \<or> looksLikeCaptureToken argsModuleId
             \<or> looksLikeCaptureToken argsModuleName \<or> looksLikeCaptureToken layoutItemId)
      in if requestedModuleId \<noteq> [] \<and>
            requestedModuleMatches requestedModuleId
              [get args ''moduleId'', get args ''moduleName'', get layoutItem ''i'',
               get layoutItem ''moduleUniqueId'']
         then True
         else if requestedModuleId \<noteq> [] \<and> \<not> looksLikeCaptureToken requestedModuleId
                 \<and> normalizeToken_str requestedModuleId \<noteq> normalizeToken_str LIBRARY_CAPTURE_MODULE_NAME
         then False
         else if \<not> isLibraryPluginToken pluginToken \<and> \<not> looksLikeCaptureLayout then False
         else (argsModuleId = normalizeToken_str LIBRARY_CAPTURE_MODULE_NAME
               \<or> argsModuleName = normalizeToken_str LIBRARY_CAPTURE_MODULE_NAME
               \<or> looksLikeCaptureLayout))"

text \<open>\<open>target[k] = { ...target[k], ...modelConfig }\<close> on a matching entry. A named
  member assigned to an array is not part of the array's JSON text; the model leaves
  such an array as it is.\<close>

definition merge_member :: "string \<Rightarrow> (string \<times> json) list \<Rightarrow> json \<Rightarrow> json" where
  "merge_member k modelConfig target =
     (case target of
        JObj kvs \<Rightarrow> JObj (AList.update k (JObj (spread (own_entries (object_member target k)) modelConfig)) kvs)
      | other \<Rightarrow> other)"

text \<open>The entries of an object or an array put back after a loop over them has changed
  some of the values.\<close>

definition with_values :: "json \<Rightarrow> json list \<Rightarrow> json" where
  "with_values container vs =
     (case container of
        JObj kvs \<Rightarrow> JObj (zip (map fst kvs) vs)
      | JArr xs \<Rightarrow> JArr vs
      | other \<Rightarrow> other)"

definition module_is_target :: "string \<Rightarrow> string \<times> json \<Rightarrow> bool" where
  "module_is_target requestedModuleId entry =
     (is_object (Some (snd entry))
      \<and> moduleDefinitionMatchesCaptureTarget (fst entry) (snd entry) requestedModuleId)"

definition applyDefaultModelToModules :: "json \<Rightarrow> (string \<times> json) list \<Rightarrow> string \<Rightarrow> json \<times> nat" where
  "applyDefaultModelToModules pageContent modelConfig requestedModuleId =
     (if \<not> is_object (get pageContent ''modules'') then (pageContent, 0)
      else case get pageContent ''modules'' of
        None \<Rightarrow> (pageContent, 0)
      | Some modules \<Rightarrow>
          (let entries = own_entries modules;
               updated = map (\<lambda>entry. if module_is_target requestedModuleId entry
                                       then merge_member ''config'' modelConfig (snd entry)
                                       else snd entry) entries
           in (case pageContent of
                 JObj kvs \<Rightarrow> JObj (AList.update ''modules'' (with_values modules updated) kvs)
               | other \<Rightarrow> other,
               length (filter (module_is_target requestedModuleId) entries))))"

definition layout_item_is_target :: "string \<Rightarrow> json \<Rightarrow> bool" where
  "layout_item_is_target requestedModuleId rawItem =
     (is_object (Some rawItem) \<and> layoutItemMatchesCaptureTarget rawItem requestedModuleId)"

definition apply_to_layout :: "(string \<times> json) list \<Rightarrow> string \<Rightarrow> json \<Rightarrow> json \<times> nat" where
  "apply_to_layout modelConfig requestedModuleId rawLayout =
     (case rawLayout of
        JArr items \<Rightarrow>
          (JArr (map (\<lambda>item. if layout_item_is_target requestedModuleId item
                              then merge_member ''args'' modelConfig item else item) items),
           length (filter (layout_item_is_target requestedModuleId) items))
      | other \<Rightarrow> (other, 0))"

definition applyDefaultModelToLayouts :: "json \<Rightarrow> (string \<times> json) list \<Rightarrow> string \<Rightarrow> json \<times> nat" where
  "applyDefaultModelToLayouts pageContent modelConfig requestedModuleId =
     (if \<not> is_object (get pageContent ''layouts'') then (pageContent, 0)
      else case get pageContent ''layouts'' of
        None \<Rightarrow> (pageContent, 0)
      | Some layouts \<Rightarrow>
          (let results = map (apply_to_layout modelConfig requestedModuleId) (map snd (own_entries layouts))
           in (case pageContent of
                 JObj kvs \<Rightarrow> JObj (AList.update ''layouts'' (with_values layouts (map fst results)) kvs)
               | other \<Rightarrow> other,
               sum_list (map snd results))))"

record SaveCaptureDefaultModelOptions =
  save_pageId :: string
  save_moduleId :: "string option"
  save_selectedModel :: ModelInfo

record SaveCaptureDefaultModelResult =
  saved_pageId :: string
  saved_default_model_key :: string
  saved_default_model_provider :: string
  saved_default_model_server_id :: string
  saved_default_model_name :: string
  updated_targets :: nat

definition could_not_locate :: error where
  "could_not_locate = Error ''Could not locate Library Capture module config for this page.''"

definition page_url :: "string \<Rightarrow> string" where
  "page_url normalizedPageId = ''/api/v1/pages/'' @ normalizedPageId"

definition config_text :: "(string \<times> json) list \<Rightarrow> string \<Rightarrow> string" where
  "config_text modelConfig k = (case as_string (map_of modelConfig k) of Some s \<Rightarrow> s | None \<Rightarrow> [])"

text \<open>\<open>saveCaptureDefaultModelForPage\<close>, with the requests it issues, the newest last.
  \<open>deepClone\<close> of a JSON value is the value.\<close>

definition saveCaptureDefaultModelForPage ::
  "env \<Rightarrow> api_service option \<Rightarrow> SaveCaptureDefaultModelOptions
     \<Rightarrow> (error + SaveCaptureDefaultModelResult) \<times> request list" where
  "saveCaptureDefaultModelForPage e api_opt options =
     (case api_opt of
        None \<Rightarrow> (Inl (Error ''API service is not available.''), [])
      | Some api \<Rightarrow>
          (case api_get api of
             None \<Rightarrow> (Inl (Error ''API service does not support page reads.''), [])
           | Some get_page \<Rightarrow>
               (case api_put api of
                  None \<Rightarrow> (Inl (Error ''API service does not support page updates.''), [])
                | Some put_page \<Rightarrow>
                    (let normalizedPageId = normalizePageId (save_pageId options)
                     in if normalizedPageId = [] then (Inl (Error ''Current page ID is unavailable.''), [])
                        else
                          (let requestedModuleId =
                                 normalizeToken_str (case save_moduleId options of Some m \<Rightarrow> m | None \<Rightarrow> [])
                           in case buildDefaultModelConfig (save_selectedModel options) of
                                Inl err \<Rightarrow> (Inl err, [])
                              | Inr modelConfig \<Rightarrow>
                                  (case get_page (page_url normalizedPageId) of
                                     Inl err \<Rightarrow> (Inl err, [GET (page_url normalizedPageId)])
                                   | Inr pageResponse \<Rightarrow>
                                       (case extractPageRecord pageResponse of
                                          Inl err \<Rightarrow> (Inl err, [GET (page_url normalizedPageId)])
                                        | Inr pageRecord \<Rightarrow>
                                            (case parsePageContent e (get pageRecord ''content'') of
                                               Inl err \<Rightarrow> (Inl err, [GET (page_url normalizedPageId)])
                                             | Inr parsedContent \<Rightarrow>
                                                 (let (content1, n1) = applyDefaultModelToModules parsedContent modelConfig requestedModuleId;
                                                      (updatedContent, n2) = applyDefaultModelToLayouts content1 modelConfig requestedModuleId;
                                                      updatedTargets = n1 + n2
                                                  in if updatedTargets < 1
                                                     then (Inl could_not_locate, [GET (page_url normalizedPageId)])
                                                     else
                                                       (let body = JObj [(''content'', updatedContent)];
                                                            issued = [GET (page_url normalizedPageId),
                                                                      PUT (page_url normalizedPageId) body]
                                                        in case put_page (page_url normalizedPageId) body of
                                                             Inl err \<Rightarrow> (Inl err, issued)
                                                           | Inr putResponse \<Rightarrow>
                                                               (Inr \<lparr> saved_pageId = normalizedPageId,
                                                                      saved_default_model_key = config_text modelConfig ''default_model_key'',
                                                                      saved_default_model_provider = config_text modelConfig ''default_model_provider'',
                                                                      saved_default_model_server_id = config_text modelConfig ''default_model_server_id'',
                                                                      saved_default_model_name = config_text modelConfig ''default_model_name'',
                                                                      updated_targets = updatedTargets \<rparr>,
                                                                issued)))))))))))"

section \<open>Observing a streamed call\<close>

text \<open>The calls one record of a frame makes on the recording callbacks, the records of
  a list of frames, and the calls of a whole stream.\<close>

definition line_calls :: "env \<Rightarrow> string option \<Rightarrow> string \<Rightarrow> call list" where
  "line_calls e convId line = handle_line e recording convId line []"

definition records :: "string list \<Rightarrow> string list" where
  "records frames = concat (map frame_lines frames)"

definition stream_calls :: "env \<Rightarrow> string option \<Rightarrow> string list \<Rightarrow> call list" where
  "stream_calls e convId frames = foldl (handle_frame e recording convId) [] frames"

fun id_calls :: "call list \<Rightarrow> string list" where
  "id_calls [] = []"
| "id_calls (ConversationId i # cs) = i # id_calls cs"
| "id_calls (c # cs) = id_calls cs"

fun chunk_calls :: "call list \<Rightarrow> string list" where
  "chunk_calls [] = []"
| "chunk_calls (Chunk t # cs) = t # chunk_calls cs"
| "chunk_calls (c # cs) = chunk_calls cs"

text \<open>The conversation id a record carries: the record is neither empty nor \<open>[DONE]\<close>
  once the \<open>data: \<close> prefix is off, it parses, and its \<open>conversation_id\<close> is truthy.\<close>

definition carried_id :: "env \<Rightarrow> string \<Rightarrow> string option" where
  "carried_id e line =
     (let payloadLine = payloadLine_of line
      in if payloadLine = [] \<or> payloadLine = ''[DONE]'' then None
         else case parse e payloadLine of
           None \<Rightarrow> None
         | Some parsed \<Rightarrow>
             if truthy (opt_get (Some parsed) ''conversation_id'')
             then Some (js_String (opt_get (Some parsed) ''conversation_id''))
             else None)"

section \<open>Sample surroundings\<close>

text \<open>
  \<open>JSON.parse\<close> on the texts the examples below use: each listed text with the value
  \<open>JSON.parse\<close> returns for it; the other texts of the examples are not JSON.
\<close>

definition sample_parse :: "string \<Rightarrow> json option" where
  "sample_parse s =
     (if s = ''{\"conversation_id\":\"c1\",\"text\":\"Hel\"}''
      then Some (JObj [(''conversation_id'', JStr ''c1''), (''text'', JStr ''Hel'')])
      else if s = ''{\"conversation_id\":\"c2\",\"text\":\"lo\"}''
      then Some (JObj [(''conversation_id'', JStr ''c2''), (''text'', JStr ''lo'')])
      else if s = ''{\"type\":\"tool_call\",\"name\":\"x\"}''
      then Some (JObj [(''type'', JStr ''tool_call''), (''name'', JStr ''x'')])
      else if s = ''{\"text\":\"hi\"}''
      then Some (JObj [(''text'', JStr ''hi'')])
      else None)"

definition sample_env :: env where
  "sample_env = \<lparr> parse = sample_parse, stringify = (\<lambda>v. ''{}''), now_iso = ''2026-01-02T03:04:05.000Z'' \<rparr>"

definition sample_model :: ModelInfo where
  "sample_model = \<lparr> name = ''llama3'', provider = ''ollama'', providerId = ''ollama_servers_settings'',
                     serverName = ''Local'', serverId = ''s1'' \<rparr>"

definition sample_mcp :: MCPRequestParams where
  "sample_mcp = \<lparr> mcp_tools_enabled = True, mcp_scope_mode = ScopeNone, mcp_project_slug = None,
                   mcp_project_name = None, mcp_project_lifecycle = Some ''active'',
                   mcp_project_source = Ui, mcp_plugin_slug = Some ''BrainDriveLibraryPlugin'',
                   mcp_approval = None \<rparr>"

definition sample_options :: "string \<Rightarrow> bool \<Rightarrow> SendCapturePromptOptions" where
  "sample_options p streaming =
     \<lparr> prompt = p, selectedModel_opt = sample_model, conversationId_opt = None,
       conversationType_opt = ''capture'', pageContext_opt = None, useStreaming = streaming,
       mcpParams = sample_mcp, approvalDecision = None \<rparr>"

text \<open>A host whose chat endpoint streams the given frames and answers a single-shot
  request with the given response.\<close>

definition sample_api :: "string list \<Rightarrow> json \<Rightarrow> api_service" where
  "sample_api frames response =
     \<lparr> api_get = None,
       api_post = Some (\<lambda>url body. Inr response),
       api_put = None,
       api_postStreaming = Some (\<lambda>url body. (frames, None)) \<rparr>"

definition fresh_service :: "'st \<Rightarrow> 'st service" where
  "fresh_service st = \<lparr> currentUserId = None, requests = [], caller = st \<rparr>"

definition two_id_frames :: "string list" where
  "two_id_frames =
     [''data: {\"conversation_id\":\"c1\",\"text\":\"Hel\"}'' @ [CHR 0x0A],
      ''data: {\"conversation_id\":\"c2\",\"text\":\"lo\"}'' @ [CHR 0x0A]]"

definition scenario_frames :: "string list" where
  "scenario_frames =
     [''data: {\"type\":\"tool_call\",\"name\":\"x\"}'' @ [CHR 0x0A] @ ''data: {broken'' @ [CHR 0x0A],
      ''data: {\"text\":\"hi\"}'' @ [CHR 0x0A],
      ''data: [DONE]'' @ [CHR 0x0A]]"



text \<open>A component as its constructor leaves it, with the given host API, models and
  selection.\<close>

definition sample_props :: "api_service option \<Rightarrow> LibraryCaptureProps" where
  "sample_props api =
     \<lparr> moduleId = None, conversationType = None, conversation_type = None,
       enableStreaming = None, enable_streaming = None,
       defaultModelKey = None, default_model_key = None,
       defaultModelProvider = None, default_model_provider = None,
       defaultModelServerId = None, default_model_server_id = None,
       defaultModelName = None, default_model_name = None,
       defaultTranscriptSource = None, default_transcript_source = None,
       services_api = api, current_page_context = None \<rparr>"

definition sample_state :: "ModelInfo list \<Rightarrow> ModelInfo option \<Rightarrow> LibraryCaptureState" where
  "sample_state ms sel =
     \<lparr> theme = Light, modelsLoading = False, scopesLoading = False, models = ms,
       selectedModel = sel, savedDefaultModelKey = None, isSavingDefaultModel = False,
       defaultModelStatus = None, defaultModelStatusTone = None, scopeOptions = [],
       scopeEnabled = False, selectedScopePath = None, conversationId = None,
       messages = [], inputText = [], isSubmitting = False, isProcessingTranscript = False,
       error = None, transcriptError = None, pendingApproval = None, activityStatus = None \<rparr>"

definition sample_component :: "api_service option \<Rightarrow> ModelInfo list \<Rightarrow> ModelInfo option \<Rightarrow> LibraryCapture" where
  "sample_component api ms sel =
     \<lparr> props = sample_props api, state = sample_state ms sel, id_counter = 0 \<rparr>"


definition sample_pending :: "string option \<Rightarrow> MCPApprovalRequest" where
  "sample_pending rid =
     \<lparr> request_id = rid, tool = ''write_file'',
       summary = ''Approval required before executing mutating tool call.'',
       arguments = None, status = Pending \<rparr>"

definition with_pending :: "MCPApprovalRequest option \<Rightarrow> LibraryCapture \<Rightarrow> LibraryCapture" where
  "with_pending a c = setState (\<lambda>s. s\<lparr>pendingApproval := a\<rparr>) c"

definition resolution_event :: "json option \<Rightarrow> json" where
  "resolution_event rid =
     JObj ([(''type'', JStr ''approval_resolution''), (''status'', JStr ''approved'')]
           @ opt_entry ''request_id'' rid)"

definition request_event :: "string \<Rightarrow> json" where
  "request_event rid =
     JObj [(''type'', JStr ''approval_request''), (''request_id'', JStr rid),
           (''tool'', JStr ''write_file'')]"



definition transcript_response :: "string \<Rightarrow> json" where
  "transcript_response extracted =
     JObj [(''processing_success'', JBool True), (''extracted_text'', JStr extracted)]"

definition sample_file :: upload_file where
  "sample_file = \<lparr> file_name = ''notes.txt'' \<rparr>"

text \<open>The prompts that went to the backend: the content of the one message of each
  chat request among the requests issued, in order.\<close>

definition chat_content :: "request \<Rightarrow> string option" where
  "chat_content r =
     (let content_of = (\<lambda>url body.
            if url = chat_url
            then (case get body ''messages'' of
                    Some (JArr [m]) \<Rightarrow> as_string (get m ''content'')
                  | other \<Rightarrow> None)
            else None)
      in case r of
           POST url body \<Rightarrow> content_of url body
         | POST_STREAMING url body \<Rightarrow> content_of url body
         | other \<Rightarrow> None)"

definition sent_prompts :: "request list \<Rightarrow> string list" where
  "sent_prompts rs = List.map_filter chat_content rs"

text \<open>An extracted text of 12,003 characters: a blank, 12,001 letters and a no-break
  space.\<close>

definition long_text :: string where
  "long_text = CHR '' '' # replicate 12001 (CHR ''a'') @ [CHR 0xA0]"

section \<open>Observing a page save\<close>

text \<open>The number of targets the two scans of a page content match, and the content
  they leave.\<close>

definition matched_targets :: "json \<Rightarrow> (string \<times> json) list \<Rightarrow> string \<Rightarrow> nat" where
  "matched_targets pageContent modelConfig requestedModuleId =
     snd (applyDefaultModelToModules pageContent modelConfig requestedModuleId)
     + snd (applyDefaultModelToLayouts
              (fst (applyDefaultModelToModules pageContent modelConfig requestedModuleId))
              modelConfig requestedModuleId)"

definition updated_content :: "json \<Rightarrow> (string \<times> json) list \<Rightarrow> string \<Rightarrow> json" where
  "updated_content pageContent modelConfig requestedModuleId =
     fst (applyDefaultModelToLayouts
            (fst (applyDefaultModelToModules pageContent modelConfig requestedModuleId))
            modelConfig requestedModuleId)"

text \<open>
  The same said from the page content alone: the module entries and the layout items
  that are targets, and the content with the model configuration merged into the
  \<open>config\<close> of each target module and into the \<open>args\<close> of each target layout item.
\<close>

definition module_targets :: "string \<Rightarrow> json \<Rightarrow> (string \<times> json) list" where
  "module_targets requestedModuleId pageContent =
     (case get pageContent ''modules'' of
        Some m \<Rightarrow> if is_object (Some m)
                  then filter (module_is_target requestedModuleId) (own_entries m) else []
      | None \<Rightarrow> [])"

definition layout_targets :: "string \<Rightarrow> json \<Rightarrow> json list" where
  "layout_targets requestedModuleId pageContent =
     (case get pageContent ''layouts'' of
        Some l \<Rightarrow>
          if is_object (Some l)
          then concat (map (\<lambda>v. case v of
                                   JArr items \<Rightarrow> filter (layout_item_is_target requestedModuleId) items
                                 | other \<Rightarrow> [])
                           (map snd (own_entries l)))
          else []
      | None \<Rightarrow> [])"

definition merged_modules :: "string \<Rightarrow> (string \<times> json) list \<Rightarrow> json \<Rightarrow> json" where
  "merged_modules requestedModuleId modelConfig m =
     with_values m
       (map (\<lambda>entry. if module_is_target requestedModuleId entry
                       then merge_member ''config'' modelConfig (snd entry) else snd entry)
            (own_entries m))"

definition merged_layouts :: "string \<Rightarrow> (string \<times> json) list \<Rightarrow> json \<Rightarrow> json" where
  "merged_layouts requestedModuleId modelConfig l =
     with_values l
       (map (\<lambda>v. case v of
                     JArr items \<Rightarrow>
                       JArr (map (\<lambda>item. if layout_item_is_target requestedModuleId item
                                          then merge_member ''args'' modelConfig item else item) items)
                   | other \<Rightarrow> other)
            (map snd (own_entries l)))"

definition merged_content :: "string \<Rightarrow> (string \<times> json) list \<Rightarrow> json \<Rightarrow> json" where
  "merged_content requestedModuleId modelConfig pageContent =
     (case pageContent of
        JObj kvs \<Rightarrow>
          (let kvs1 = (case map_of kvs ''modules'' of
                         Some m \<Rightarrow> if is_object (Some m)
                                   then AList.update ''modules'' (merged_modules requestedModuleId modelConfig m) kvs
                                   else kvs
                       | None \<Rightarrow> kvs)
           in JObj (case map_of kvs ''layouts'' of
                      Some l \<Rightarrow> if is_object (Some l)
                                then AList.update ''layouts'' (merged_layouts requestedModuleId modelConfig l) kvs1
                                else kvs1
                    | None \<Rightarrow> kvs1))
      | other \<Rightarrow> other)"

text \<open>A host whose page endpoint returns the given page record and accepts every
  update, and four pages: one with a capture module, one without any target, one with
  a capture layout item only, and one with a capture module and a capture layout item.\<close>

definition page_api :: "json \<Rightarrow> api_service" where
  "page_api pageRecord =
     \<lparr> api_get = Some (\<lambda>url. Inr pageRecord),
       api_post = None,
       api_put = Some (\<lambda>url body. Inr (JObj [])),
       api_postStreaming = None \<rparr>"

definition capture_page :: json where
  "capture_page =
     JObj [(''content'',
            JObj [(''modules'',
                   JObj [(''LibraryCapture_1'', JObj [(''config'', JObj [(''title'', JStr ''Capture'')])])])])]"

definition other_page :: json where
  "other_page =
     JObj [(''content'', JObj [(''modules'', JObj [(''Notes_1'', JObj [(''config'', JObj [])])])])]"

definition layout_page :: json where
  "layout_page =
     JObj [(''content'',
            JObj [(''layouts'',
                   JObj [(''desktop'',
                          JArr [JObj [(''i'', JStr ''LibraryCapture_a''),
                                      (''args'', JObj [(''moduleId'', JStr ''m1'')])],
                                JObj [(''i'', JStr ''notes'')]])])])]"

definition full_page :: json where
  "full_page =
     JObj [(''content'',
            JObj [(''modules'',
                   JObj [(''LibraryCapture_1'', JObj [(''config'', JObj [(''title'', JStr ''Capture'')])])]),
                  (''layouts'',
                   JObj [(''desktop'',
                          JArr [JObj [(''i'', JStr ''n1''),
                                      (''pluginId'', JStr ''BrainDriveLibraryPlugin''),
                                      (''args'', JObj [(''moduleName'', JStr ''LibraryCapture'')])],
                                JObj [(''i'', JStr ''notes'')]])])])]"

definition save_options :: SaveCaptureDefaultModelOptions where
  "save_options = \<lparr> save_pageId = ''ab-12'', save_moduleId = None, save_selectedModel = sample_model \<rparr>"

definition sample_cfg :: "(string \<times> json) list" where
  "sample_cfg = [(''default_model_key'', JStr ''ollama::s1::llama3''),
      (''default_model_provider'', JStr ''ollama''),
      (''default_model_server_id'', JStr ''s1''),
      (''default_model_name'', JStr ''llama3''),
      (''default_model_provider_id'', JStr ''ollama_servers_settings''),
      (''default_model_server_name'', JStr ''Local'')]"

text \<open>A scope record of the backend whose path has a blank before its final slash, the
  scope option the service makes of it, and a component whose scope list holds the
  given options.\<close>

definition demo_scope_record :: json where
  "demo_scope_record = JObj [(''name'', JStr ''Demo''), (''path'', JStr ''projects/active/demo /'')]"

definition demo_scope :: ScopeOption where
  "demo_scope =
     \<lparr> scope_name = ''Demo'', slug = ''demo'', lifecycle = ''active'',
       path = ''projects/active/demo '', scope_root = Some Projects,
       has_agent_md = False, has_spec = False, has_build_plan = False, has_decisions = False \<rparr>"

definition with_scopes :: "ScopeOption list \<Rightarrow> LibraryCapture \<Rightarrow> LibraryCapture" where
  "with_scopes scopes c = setState (\<lambda>s. s\<lparr>scopeOptions := scopes\<rparr>) c"

section \<open>Properties of path normalization\<close>

lemma normalizeScopePath_eq: "normalizeScopePath = normalizePath"
  by (rule ext) (simp add: normalizeScopePath_def normalizePath_def)

lemma length_trim_le: "length (trim s) \<le> length s"
proof -
  have "length (trim s) \<le> length (dropWhile is_ws s)"
    unfolding trim_def by (simp add: length_dropWhile_le order_trans [OF length_dropWhile_le])
  also have "\<dots> \<le> length s" by (rule length_dropWhile_le)
  finally show ?thesis .
qed

lemma dropWhile_same_length: "length (dropWhile P xs) = length xs \<Longrightarrow> dropWhile P xs = xs"
proof -
  assume h: "length (dropWhile P xs) = length xs"
  have "length (takeWhile P xs) + length (dropWhile P xs) = length xs"
    by (metis length_append takeWhile_dropWhile_id)
  with h have "takeWhile P xs = []" by simp
  then show ?thesis by (metis append_Nil takeWhile_dropWhile_id)
qed

lemma trim_same_length: "length (trim s) = length s \<Longrightarrow> trim s = s"
proof -
  assume h: "length (trim s) = length s"
  let ?d = "dropWhile is_ws s"
  have a: "length (trim s) = length (dropWhile is_ws (rev ?d))" by (simp add: trim_def)
  have b: "length (dropWhile is_ws (rev ?d)) \<le> length ?d"
    using length_dropWhile_le [of is_ws "rev ?d"] by simp
  have c: "length ?d \<le> length s" by (rule length_dropWhile_le)
  from h a b c have d: "length ?d = length s" and e: "length (dropWhile is_ws (rev ?d)) = length (rev ?d)"
    by simp_all
  from d have "?d = s" by (rule dropWhile_same_length)
  moreover from e have "dropWhile is_ws (rev ?d) = rev ?d" by (rule dropWhile_same_length)
  ultimately show ?thesis by (simp add: trim_def)
qed

lemma set_trim: "set (trim s) \<subseteq> set s"
proof -
  have "set (trim s) = set (dropWhile is_ws (rev (dropWhile is_ws s)))" by (simp add: trim_def)
  also have "\<dots> \<subseteq> set (rev (dropWhile is_ws s))" by (rule set_dropWhileD [THEN subsetI])
  also have "\<dots> \<subseteq> set s" using set_dropWhileD [of _ is_ws s] by auto
  finally show ?thesis .
qed

lemma no_backslash_replace: "CHR 0x5C \<notin> set (replace_backslash_runs s)"
  by (induction s rule: replace_backslash_runs.induct) auto

lemma replace_backslash_runs_id: "CHR 0x5C \<notin> set s \<Longrightarrow> replace_backslash_runs s = s"
  by (induction s) auto

lemma length_strip_leading: "length (strip_leading_slashes s) \<le> length s"
  by (simp add: strip_leading_slashes_def length_dropWhile_le)

lemma length_strip_trailing: "length (strip_trailing_slashes s) \<le> length s"
  using length_dropWhile_le [of "\<lambda>c. c = CHR ''/''" "rev s"]
  by (simp add: strip_trailing_slashes_def)

lemma set_strip_leading: "set (strip_leading_slashes s) \<subseteq> set s"
  using set_dropWhileD [of _ "\<lambda>c. c = CHR ''/''" s] by (auto simp: strip_leading_slashes_def)

lemma set_strip_trailing: "set (strip_trailing_slashes s) \<subseteq> set s"
  using set_dropWhileD [of _ "\<lambda>c. c = CHR ''/''" "rev s"]
  by (auto simp: strip_trailing_slashes_def)

lemma strip_trailing_idem:
  "strip_trailing_slashes (strip_trailing_slashes s) = strip_trailing_slashes s"
  by (simp add: strip_trailing_slashes_def)

lemma strip_leading_after_trailing:
  "strip_leading_slashes (strip_trailing_slashes (strip_leading_slashes s))
     = strip_trailing_slashes (strip_leading_slashes s)"
proof -
  let ?P = "\<lambda>c. c = CHR ''/''"
  define y where "y = dropWhile ?P s"
  define z where "z = rev (dropWhile ?P (rev y))"
  have pre: "z @ rev (takeWhile ?P (rev y)) = y"
    unfolding z_def by (metis rev_append rev_rev_ident takeWhile_dropWhile_id)
  have "z = [] \<or> \<not> ?P (hd z)"
  proof (cases "z = []")
    case True
    then show ?thesis by simp
  next
    case False
    then have "hd y = hd z" using pre by (metis hd_append2)
    moreover have "y \<noteq> []" using False pre by (metis append_is_Nil_conv)
    ultimately show ?thesis using hd_dropWhile [of ?P s] by (simp add: y_def)
  qed
  then have "dropWhile ?P z = z" by (simp only: dropWhile_eq_self_iff)
  then show ?thesis
    by (simp only: strip_leading_slashes_def strip_trailing_slashes_def y_def z_def)
qed

text \<open>
  A second normalization changes nothing exactly when the first result has no white
  space at either end.
\<close>

lemma normalizePath_idempotent_iff:
  "normalizePath (normalizePath p) = normalizePath p
     \<longleftrightarrow> trim (normalizePath p) = normalizePath p"
proof -
  let ?q = "normalizePath p"
  have nb: "CHR 0x5C \<notin> set ?q"
    using no_backslash_replace [of "trim p"] set_strip_leading set_strip_trailing
    unfolding normalizePath_def by blast
  have nbt: "CHR 0x5C \<notin> set (trim ?q)" using nb set_trim by blast
  have n2: "normalizePath ?q = strip_trailing_slashes (strip_leading_slashes (trim ?q))"
    using replace_backslash_runs_id [OF nbt] by (simp add: normalizePath_def [of ?q])
  have fixq: "strip_trailing_slashes (strip_leading_slashes ?q) = ?q"
    unfolding normalizePath_def
    by (simp add: strip_leading_after_trailing strip_trailing_idem)
  show ?thesis
  proof
    assume eq: "normalizePath ?q = ?q"
    have "length ?q = length (strip_trailing_slashes (strip_leading_slashes (trim ?q)))"
      using eq n2 by simp
    also have "\<dots> \<le> length (strip_leading_slashes (trim ?q))" by (rule length_strip_trailing)
    also have "\<dots> \<le> length (trim ?q)" by (rule length_strip_leading)
    finally have "length ?q \<le> length (trim ?q)" .
    with length_trim_le [of ?q] have "length (trim ?q) = length ?q" by simp
    then show "trim ?q = ?q" by (rule trim_same_length)
  next
    assume "trim ?q = ?q"
    with n2 fixq show "normalizePath ?q = ?q" by simp
  qed
qed

lemma demo_scope_option:
  "normalizeScopeOption demo_scope_record Projects = Some demo_scope"
  by code_simp

lemma demo_scope_dropped:
  "buildMcpParams (state (scope_onChange (path demo_scope)
       (with_scopes [demo_scope] (sample_component None [] None)))) None
     = \<lparr> mcp_tools_enabled = True, mcp_scope_mode = ScopeNone, mcp_project_slug = None,
         mcp_project_name = None, mcp_project_lifecycle = Some ''active'',
         mcp_project_source = Ui, mcp_plugin_slug = Some ''BrainDriveLibraryPlugin'',
         mcp_approval = None \<rparr>"
  by code_simp

text \<open>
  C2. Normalization is not idempotent, though the component needs it to be. The path
  \<open>"projects/active/demo /"\<close> of a backend scope record is normalized by the service
  to \<open>"projects/active/demo "\<close>, with the blank left at the end, and a second
  normalization removes the blank. The scope selector stores the path of the chosen
  option as the scope list has it, and \<open>getSelectedScopeOption\<close> looks for an option whose
  normalized path equals the stored one: it finds none, and the request goes out
  with no scope although the user chose one.
\<close>

theorem normalization_not_idempotent_drops_scope:
  "normalizeScopePath ''projects/active/demo /'' = ''projects/active/demo ''
   \<and> normalizePath (normalizeScopePath ''projects/active/demo /'') = ''projects/active/demo''
   \<and> normalizePath (normalizePath ''projects/active/demo /'') \<noteq> normalizePath ''projects/active/demo /''
   \<and> normalizeScopeOption demo_scope_record Projects = Some demo_scope
   \<and> scopeEnabled (state (scope_onChange (path demo_scope)
         (with_scopes [demo_scope] (sample_component None [] None))))
   \<and> getSelectedScopeOption (state (scope_onChange (path demo_scope)
         (with_scopes [demo_scope] (sample_component None [] None)))) = None
   \<and> mcp_scope_mode (buildMcpParams (state (scope_onChange (path demo_scope)
         (with_scopes [demo_scope] (sample_component None [] None)))) None) = ScopeNone"
proof -
  have a: "normalizeScopePath ''projects/active/demo /'' = ''projects/active/demo ''"
    by (simp add: normalizeScopePath_def trim_def is_ws_def strip_leading_slashes_def
        strip_trailing_slashes_def)
  have b: "normalizePath ''projects/active/demo '' = ''projects/active/demo''"
    by (simp add: normalizePath_def trim_def is_ws_def strip_leading_slashes_def
        strip_trailing_slashes_def)
  have c: "normalizePath ''projects/active/demo /'' = ''projects/active/demo ''"
    using a by (simp add: normalizeScopePath_eq)
  have d: "scopeEnabled (state (scope_onChange (path demo_scope)
         (with_scopes [demo_scope] (sample_component None [] None))))"
    by (simp add: scope_onChange_def setState_def demo_scope_def)
  have e: "getSelectedScopeOption (state (scope_onChange (path demo_scope)
         (with_scopes [demo_scope] (sample_component None [] None)))) = None"
    by code_simp
  from a b c d e demo_scope_option demo_scope_dropped show ?thesis by simp
qed

section \<open>Properties of the streamed call\<close>

lemma recording_simps [simp]:
  "onChunk recording c tr = (None, tr @ [Chunk c])"
  "onConversationId recording i tr = (None, tr @ [ConversationId i])"
  "onMetadataEvent recording ev tr = (None, tr @ [MetadataEvent ev])"
  by (simp_all add: recording_def)

lemma handle_line_recording:
  "handle_line e recording convId line tr = tr @ line_calls e convId line"
  by (simp add: handle_line_def line_calls_def Let_def split: option.splits)

lemma foldl_handle_line_recording:
  "foldl (\<lambda>s line. handle_line e recording convId line s) tr ls
     = tr @ concat (map (line_calls e convId) ls)"
proof (induction ls arbitrary: tr)
  case Nil
  show ?case by simp
next
  case (Cons l ls)
  show ?case by (simp add: Cons.IH handle_line_recording [of e convId l tr])
qed

lemma handle_frame_recording:
  "handle_frame e recording convId tr chunk
     = tr @ concat (map (line_calls e convId) (frame_lines chunk))"
  by (simp add: handle_frame_def foldl_handle_line_recording)

lemma foldl_handle_frame_recording:
  "foldl (handle_frame e recording convId) tr frames
     = tr @ concat (map (line_calls e convId) (records frames))"
proof (induction frames arbitrary: tr)
  case Nil
  show ?case by (simp add: records_def)
next
  case (Cons f fs)
  have r: "records (f # fs) = frame_lines f @ records fs" by (simp add: records_def)
  have "foldl (handle_frame e recording convId) tr (f # fs)
          = handle_frame e recording convId tr f @ concat (map (line_calls e convId) (records fs))"
    by (simp only: foldl_Cons Cons.IH)
  also have "\<dots> = tr @ concat (map (line_calls e convId) (records (f # fs)))"
    by (simp only: handle_frame_recording r map_append concat_append append_assoc)
  finally show ?case .
qed

lemma caller_initializeUserId [simp]: "caller (initializeUserId api svc) = caller svc"
  by (simp add: initializeUserId_def Let_def split: option.splits sum.splits)

lemma sendPrompt_streaming_calls:
  assumes "api_post api = Some post" and "useStreaming options"
    and "api_postStreaming api = Some transport"
    and "transport chat_url (build_request e (currentUserId (initializeUserId api svc)) options)
           = (frames, rejection)"
  shows "caller (snd (captureService_sendPrompt e (Some api) recording options svc))
           = caller svc @ concat (map (line_calls e (conversationId_opt options)) (records frames))"
  using assms
  by (simp add: captureService_sendPrompt_def Let_def foldl_handle_frame_recording
      split: option.splits)

subsection \<open>The conversation id callback\<close>

lemma id_calls_append: "id_calls (xs @ ys) = id_calls xs @ id_calls ys"
  by (induction xs rule: id_calls.induct) simp_all

lemma id_calls_line:
  "id_calls (line_calls e convId line)
     = (if known_id convId then [] else (case carried_id e line of None \<Rightarrow> [] | Some i \<Rightarrow> [i]))"
  by (simp add: line_calls_def handle_line_def carried_id_def Let_def split: option.splits)

lemma id_calls_concat:
  "id_calls (concat (map (line_calls e convId) ls))
     = (if known_id convId then [] else List.map_filter (carried_id e) ls)"
proof (induction ls)
  case Nil
  show ?case by simp
next
  case (Cons l ls)
  show ?case
    by (simp add: id_calls_append id_calls_line Cons.IH split: option.splits)
qed



text \<open>
  C1, amended. In a streaming call the conversation id callback is invoked once for
  every streamed record that carries a conversation id, in the order of arrival, when
  the call started without a conversation id; it is never invoked when the call started
  with one. The service tests the id the call was given, which does not change during
  the call.
\<close>

theorem conversation_id_callback_per_record:
  assumes "api_post api = Some post" and "useStreaming options"
    and "api_postStreaming api = Some transport"
    and "transport chat_url (build_request e (currentUserId (initializeUserId api svc)) options)
           = (frames, rejection)"
    and "caller svc = []"
  shows "id_calls (caller (snd (captureService_sendPrompt e (Some api) recording options svc)))
           = (if known_id (conversationId_opt options) then []
              else List.map_filter (carried_id e) (records frames))"
proof -
  have "caller (snd (captureService_sendPrompt e (Some api) recording options svc))
          = concat (map (line_calls e (conversationId_opt options)) (records frames))"
    using sendPrompt_streaming_calls [OF assms(1-4)] assms(5) by simp
  then show ?thesis by (simp only: id_calls_concat)
qed

lemma records_two_id_frames:
  "records two_id_frames = [''data: {\"conversation_id\":\"c1\",\"text\":\"Hel\"}'',
     ''data: {\"conversation_id\":\"c2\",\"text\":\"lo\"}'']"
  by (simp add: records_def two_id_frames_def frame_lines_def trim_def is_ws_def)

lemma carried_two_id_frames:
  "List.map_filter (carried_id sample_env) (records two_id_frames) = [''c1'', ''c2'']"
  by (simp add: records_two_id_frames List.map_filter_simps carried_id_def payloadLine_of_def
      slice_from_def sample_env_def sample_parse_def)

theorem conversation_id_callback_per_record_witness:
  "id_calls (caller (snd (captureService_sendPrompt sample_env (Some (sample_api two_id_frames JNull))
       recording (sample_options ''hello'' True) (fresh_service []))))
     = [''c1'', ''c2'']"
proof -
  have "id_calls (caller (snd (captureService_sendPrompt sample_env (Some (sample_api two_id_frames JNull))
       recording (sample_options ''hello'' True) (fresh_service []))))
     = (if known_id (conversationId_opt (sample_options ''hello'' True)) then []
        else List.map_filter (carried_id sample_env) (records two_id_frames))"
    by (rule conversation_id_callback_per_record
          [where post = "\<lambda>url body. Inr JNull" and transport = "\<lambda>url body. (two_id_frames, None)"
             and rejection = None])
       (simp_all add: sample_api_def sample_options_def fresh_service_def)
  then show ?thesis
    by (simp add: carried_two_id_frames sample_options_def known_id_def)
qed

text \<open>
  C1. The claim, as worded: a streaming call that starts with a null conversation id
  invokes the conversation id callback exactly once, for the first record that carries
  an id. It fails on a stream of two records that each carry an id: the callback is
  invoked for both, and the component, which stores whatever id the callback brings,
  ends with the second id in place of the first.
\<close>

lemma component_keeps_last_id:
  "conversationId (state (caller (LibraryCapture_sendPrompt sample_env ''hello'' no_send_options
      (fresh_service (sample_component (Some (sample_api two_id_frames (JObj []))) [sample_model]
         (Some sample_model)))))) = Some ''c2''"
  by code_simp

theorem conversation_id_callback_invoked_twice:
  "conversationId_opt (sample_options ''hello'' True) = None
   \<and> caller (snd (captureService_sendPrompt sample_env (Some (sample_api two_id_frames JNull))
         recording (sample_options ''hello'' True) (fresh_service [])))
       = [ConversationId ''c1'', Chunk ''Hel'', ConversationId ''c2'', Chunk ''lo'']
   \<and> conversationId (state (caller (LibraryCapture_sendPrompt sample_env ''hello'' no_send_options
         (fresh_service (sample_component (Some (sample_api two_id_frames (JObj []))) [sample_model]
            (Some sample_model)))))) = Some ''c2''"
proof -
  have l1: "line_calls sample_env None ''data: {\"conversation_id\":\"c1\",\"text\":\"Hel\"}''
              = [ConversationId ''c1'', Chunk ''Hel'']"
    by (simp add: line_calls_def handle_line_def payloadLine_of_def slice_from_def sample_env_def
        sample_parse_def known_id_def has_metadata_type_def extractTextFromData_def)
  have l2: "line_calls sample_env None ''data: {\"conversation_id\":\"c2\",\"text\":\"lo\"}''
              = [ConversationId ''c2'', Chunk ''lo'']"
    by (simp add: line_calls_def handle_line_def payloadLine_of_def slice_from_def sample_env_def
        sample_parse_def known_id_def has_metadata_type_def extractTextFromData_def)
  have "caller (snd (captureService_sendPrompt sample_env (Some (sample_api two_id_frames JNull))
         recording (sample_options ''hello'' True) (fresh_service [])))
       = caller (fresh_service []) @ concat (map (line_calls sample_env
           (conversationId_opt (sample_options ''hello'' True))) (records two_id_frames))"
    by (rule sendPrompt_streaming_calls
          [where post = "\<lambda>url body. Inr JNull" and transport = "\<lambda>url body. (two_id_frames, None)"
             and rejection = None])
       (simp_all add: sample_api_def sample_options_def)
  then have tr: "caller (snd (captureService_sendPrompt sample_env (Some (sample_api two_id_frames JNull))
         recording (sample_options ''hello'' True) (fresh_service [])))
       = [ConversationId ''c1'', Chunk ''Hel'', ConversationId ''c2'', Chunk ''lo'']"
    by (simp add: records_two_id_frames sample_options_def fresh_service_def l1 l2)
  have n: "conversationId_opt (sample_options ''hello'' True) = None"
    by (simp add: sample_options_def)
  from n tr component_keeps_last_id show ?thesis by (intro conjI)
qed

subsection \<open>Routing of streamed records\<close>

lemma chunk_calls_append: "chunk_calls (xs @ ys) = chunk_calls xs @ chunk_calls ys"
  by (induction xs rule: chunk_calls.induct) simp_all

lemma has_metadata_type_of_type:
  "get parsed ''type'' = Some (JStr t) \<Longrightarrow> is_metadata_type t \<Longrightarrow> has_metadata_type parsed"
  by (cases parsed) (simp_all add: has_metadata_type_def)

text \<open>
  C4. Of the records of a streamed frame: a record that is \<open>[DONE]\<close> once the optional
  \<open>data: \<close> prefix is off makes no call; a record that is not valid JSON makes no
  call; a record whose JSON has a \<open>type\<close> equal to one of the ten event names goes to the
  metadata callback (after the conversation id callback, when that is due) and makes no
  chunk call. The calls of a whole stream are those of its records one after the other,
  so a dropped record does not stop the records after it. (The hypothesis that the text
  is neither empty nor \<open>[DONE]\<close> holds for every text that \<open>JSON.parse\<close> accepts.)
\<close>

theorem streamed_record_routing:
  "(payloadLine_of line = ''[DONE]'' \<longrightarrow> line_calls e convId line = [])
   \<and> (parse e (payloadLine_of line) = None \<longrightarrow> line_calls e convId line = [])
   \<and> (payloadLine_of line \<noteq> [] \<and> payloadLine_of line \<noteq> ''[DONE]''
        \<and> parse e (payloadLine_of line) = Some parsed
        \<and> get parsed ''type'' = Some (JStr t) \<and> is_metadata_type t
      \<longrightarrow> line_calls e convId line
            = (case carried_id e line of
                 Some i \<Rightarrow> if known_id convId then [] else [ConversationId i]
               | None \<Rightarrow> []) @ [MetadataEvent parsed]
          \<and> chunk_calls (line_calls e convId line) = [])
   \<and> stream_calls e convId frames = concat (map (line_calls e convId) (records frames))"
proof (intro conjI impI)
  assume "payloadLine_of line = ''[DONE]''"
  then show "line_calls e convId line = []"
    by (simp add: line_calls_def handle_line_def)
next
  assume "parse e (payloadLine_of line) = None"
  then show "line_calls e convId line = []"
    by (simp add: line_calls_def handle_line_def Let_def)
next
  assume h: "payloadLine_of line \<noteq> [] \<and> payloadLine_of line \<noteq> ''[DONE]''
        \<and> parse e (payloadLine_of line) = Some parsed
        \<and> get parsed ''type'' = Some (JStr t) \<and> is_metadata_type t"
  then have m: "has_metadata_type parsed" by (simp add: has_metadata_type_of_type)
  from h m show r: "line_calls e convId line
            = (case carried_id e line of
                 Some i \<Rightarrow> if known_id convId then [] else [ConversationId i]
               | None \<Rightarrow> []) @ [MetadataEvent parsed]"
    by (simp add: line_calls_def handle_line_def carried_id_def Let_def)
  show "chunk_calls (line_calls e convId line) = []"
    by (simp add: r chunk_calls_append split: option.splits)
next
  show "stream_calls e convId frames = concat (map (line_calls e convId) (records frames))"
    by (simp add: stream_calls_def foldl_handle_frame_recording)
qed

lemma records_scenario_frames:
  "records scenario_frames
     = [''data: {\"type\":\"tool_call\",\"name\":\"x\"}'', ''data: {broken'', ''data: {\"text\":\"hi\"}'',
        ''data: [DONE]'']"
  by (simp add: records_def scenario_frames_def frame_lines_def trim_def is_ws_def)

lemma payloadLine_of_samples:
  "payloadLine_of ''data: [DONE]'' = ''[DONE]''"
  "payloadLine_of ''data: {broken'' = ''{broken''"
  "payloadLine_of ''data: {\"type\":\"tool_call\",\"name\":\"x\"}'' = ''{\"type\":\"tool_call\",\"name\":\"x\"}''"
  by (simp_all add: payloadLine_of_def slice_from_def)

theorem streamed_record_routing_witness:
  "line_calls sample_env None ''data: [DONE]'' = []
   \<and> line_calls sample_env None ''data: {broken'' = []
   \<and> line_calls sample_env None ''data: {\"type\":\"tool_call\",\"name\":\"x\"}''
       = [MetadataEvent (JObj [(''type'', JStr ''tool_call''), (''name'', JStr ''x'')])]
   \<and> stream_calls sample_env None scenario_frames
       = [MetadataEvent (JObj [(''type'', JStr ''tool_call''), (''name'', JStr ''x'')]), Chunk ''hi'']"
proof -
  note r = streamed_record_routing [where e = sample_env and convId = None and frames = scenario_frames]
  have a: "line_calls sample_env None ''data: [DONE]'' = []"
    using r [where line = "''data: [DONE]''"] by (simp add: payloadLine_of_samples)
  have b: "line_calls sample_env None ''data: {broken'' = []"
    using r [where line = "''data: {broken''"]
    by (simp add: payloadLine_of_samples sample_env_def sample_parse_def)
  have c: "line_calls sample_env None ''data: {\"type\":\"tool_call\",\"name\":\"x\"}''
       = [MetadataEvent (JObj [(''type'', JStr ''tool_call''), (''name'', JStr ''x'')])]"
    using r [where line = "''data: {\"type\":\"tool_call\",\"name\":\"x\"}''"
               and parsed = "JObj [(''type'', JStr ''tool_call''), (''name'', JStr ''x'')]"
               and t = "''tool_call''"]
    by (simp add: payloadLine_of_samples sample_env_def sample_parse_def is_metadata_type_def
        carried_id_def)
  have d: "line_calls sample_env None ''data: {\"text\":\"hi\"}'' = [Chunk ''hi'']"
    by (simp add: line_calls_def handle_line_def payloadLine_of_def slice_from_def sample_env_def
        sample_parse_def has_metadata_type_def extractTextFromData_def)
  have "stream_calls sample_env None scenario_frames
          = concat (map (line_calls sample_env None) (records scenario_frames))"
    using r [where line = "[]"] by simp
  then have "stream_calls sample_env None scenario_frames
       = [MetadataEvent (JObj [(''type'', JStr ''tool_call''), (''name'', JStr ''x'')]), Chunk ''hi'']"
    by (simp add: records_scenario_frames a b c d)
  with a b c show ?thesis by simp
qed

subsection \<open>The single-shot call\<close>

lemma call_if_recording:
  "call_if c (\<lambda>tr. (None, tr @ [x])) (None, tr) = (None, if c then tr @ [x] else tr)"
  by (simp add: call_if_def)












subsection \<open>The fallback prompt\<close>

text \<open>
  C10, amended. When the prompt is empty or white space only: on a service whose API
  offers \<open>post\<close>, the chat request is still issued (streaming or not), and the one
  message of its body has the content \<open>Continue.\<close>; on a service without an API, or whose
  API offers no \<open>post\<close>, the call throws and issues no chat request.
\<close>

theorem fallback_prompt:
  assumes "trim (prompt options) = []"
  shows "captureService_sendPrompt e None cb options svc
           = (Inl (Error ''API service is not available.''), svc)
         \<and> (api_post api = None
              \<longrightarrow> captureService_sendPrompt e (Some api) cb options svc
                    = (Inl (Error ''API service does not support POST requests.''),
                       initializeUserId api svc))
         \<and> (api_post api = Some post
              \<longrightarrow> requests (snd (captureService_sendPrompt e (Some api) cb options svc))
                    = requests (initializeUserId api svc)
                      @ [if useStreaming options \<and> api_postStreaming api \<noteq> None
                         then POST_STREAMING chat_url
                                (build_request e (currentUserId (initializeUserId api svc)) options)
                         else POST chat_url
                                (build_request e (currentUserId (initializeUserId api svc)) options)]
                  \<and> get (build_request e (currentUserId (initializeUserId api svc)) options) ''messages''
                      = Some (JArr [JObj [(''role'', JStr ''user''), (''content'', JStr ''Continue.'')]]))"
proof (intro conjI impI)
  show "captureService_sendPrompt e None cb options svc
           = (Inl (Error ''API service is not available.''), svc)"
    by (simp add: captureService_sendPrompt_def)
next
  assume "api_post api = None"
  then show "captureService_sendPrompt e (Some api) cb options svc
                    = (Inl (Error ''API service does not support POST requests.''),
                       initializeUserId api svc)"
    by (simp add: captureService_sendPrompt_def Let_def)
next
  assume "api_post api = Some post"
  then show "requests (snd (captureService_sendPrompt e (Some api) cb options svc))
                    = requests (initializeUserId api svc)
                      @ [if useStreaming options \<and> api_postStreaming api \<noteq> None
                         then POST_STREAMING chat_url
                                (build_request e (currentUserId (initializeUserId api svc)) options)
                         else POST chat_url
                                (build_request e (currentUserId (initializeUserId api svc)) options)]"
    by (auto simp: captureService_sendPrompt_def Let_def split: option.splits prod.splits sum.splits)
next
  show "get (build_request e (currentUserId (initializeUserId api svc)) options) ''messages''
          = Some (JArr [JObj [(''role'', JStr ''user''), (''content'', JStr ''Continue.'')]])"
    using assms by (simp add: build_request_def str_or_def Let_def)
qed

lemma blank_prompt:
  "trim (prompt (sample_options [CHR '' '', CHR 0xA0, CHR 0x09] streaming)) = []"
  by (simp add: sample_options_def trim_def is_ws_def)

lemma post_less_api:
  "api_post (page_api p) = None" "api_get (page_api p) = Some (\<lambda>url. Inr p)"
  by (simp_all add: page_api_def)

theorem fallback_prompt_witness:
  "requests (snd (captureService_sendPrompt sample_env (Some (sample_api [] (JObj [])))
         recording (sample_options [CHR '' '', CHR 0xA0, CHR 0x09] False) (fresh_service [])))
       = [POST chat_url (build_request sample_env None
                           (sample_options [CHR '' '', CHR 0xA0, CHR 0x09] False))]
   \<and> get (build_request sample_env None (sample_options [CHR '' '', CHR 0xA0, CHR 0x09] False))
         ''messages''
       = Some (JArr [JObj [(''role'', JStr ''user''), (''content'', JStr ''Continue.'')]])
   \<and> requests (snd (captureService_sendPrompt sample_env (Some (page_api JNull))
         recording (sample_options [CHR '' '', CHR 0xA0, CHR 0x09] False) (fresh_service [])))
       = [GET ''/api/v1/auth/me'']"
proof -
  note th = fallback_prompt [OF blank_prompt [where streaming = False], where e = sample_env
      and cb = recording and svc = "fresh_service []"]
  have i: "initializeUserId (sample_api [] (JObj [])) (fresh_service ([] :: call list))
             = fresh_service []"
    by (simp add: initializeUserId_def sample_api_def fresh_service_def)
  have j: "requests (initializeUserId (page_api JNull) (fresh_service ([] :: call list)))
             = [GET ''/api/v1/auth/me'']"
    by (simp add: initializeUserId_def page_api_def fresh_service_def Let_def
        normalizeApiPayload_def js_or_def)
  have p: "api_post (sample_api [] (JObj [])) = Some (\<lambda>url body. Inr (JObj []))"
    by (simp add: sample_api_def)
  have u: "currentUserId (fresh_service ([] :: call list)) = None"
          "requests (fresh_service ([] :: call list)) = []"
    by (simp_all add: fresh_service_def)
  have s: "\<not> useStreaming (sample_options [CHR '' '', CHR 0xA0, CHR 0x09] False)"
    by (simp add: sample_options_def)
  have a: "requests (snd (captureService_sendPrompt sample_env (Some (sample_api [] (JObj [])))
         recording (sample_options [CHR '' '', CHR 0xA0, CHR 0x09] False) (fresh_service [])))
       = [POST chat_url (build_request sample_env None
                           (sample_options [CHR '' '', CHR 0xA0, CHR 0x09] False))]
     \<and> get (build_request sample_env None (sample_options [CHR '' '', CHR 0xA0, CHR 0x09] False))
         ''messages''
       = Some (JArr [JObj [(''role'', JStr ''user''), (''content'', JStr ''Continue.'')]])"
    using th [where api = "sample_api [] (JObj [])" and post = "\<lambda>url body. Inr (JObj [])",
              THEN conjunct2, THEN conjunct2, rule_format, OF p]
    by (simp only: i u s append_Nil simp_thms if_False)
  have b: "requests (snd (captureService_sendPrompt sample_env (Some (page_api JNull))
         recording (sample_options [CHR '' '', CHR 0xA0, CHR 0x09] False) (fresh_service [])))
       = [GET ''/api/v1/auth/me'']"
    using th [where api = "page_api JNull", THEN conjunct2, THEN conjunct1, rule_format,
              OF post_less_api(1)]
    by (simp add: j)
  from a b show ?thesis by simp
qed

text \<open>
  C10. The claim, as worded: for every call with an empty or white-space-only prompt the
  request is still issued. It fails on a service that has no API: the call throws and
  no request is issued.
\<close>

theorem blank_prompt_without_api:
  "trim (prompt (sample_options [CHR '' '', CHR 0xA0, CHR 0x09] False)) = []
   \<and> captureService_sendPrompt sample_env None recording
         (sample_options [CHR '' '', CHR 0xA0, CHR 0x09] False) (fresh_service [])
       = (Inl (Error ''API service is not available.''), fresh_service [])
   \<and> requests (fresh_service ([] :: call list)) = []"
  by (simp add: blank_prompt captureService_sendPrompt_def fresh_service_def)

section \<open>Properties of the capture component\<close>

subsection \<open>The pending approval\<close>

lemma event_type_is_object: "get event ''type'' = Some v \<Longrightarrow> is_object (Some event)"
  by (cases event) simp_all

lemma pendingApproval_append_new [simp]:
  "pendingApproval (state (append_new e prefix who text streaming err c)) = pendingApproval (state c)"
  by (simp add: append_new_def generateId_def appendMessage_def setState_def Let_def)

lemma handleMetadataEvent_resolution:
  "get event ''type'' = Some (JStr ''approval_resolution'')
     \<Longrightarrow> handleMetadataEvent e event c = (None, handle_approval_resolution e event c)"
  by (simp add: handleMetadataEvent_def event_type_is_object)

lemma handleMetadataEvent_request:
  "get event ''type'' = Some (JStr ''approval_request'')
     \<Longrightarrow> handleMetadataEvent e event c = handle_approval_request e ''approval_request'' event c"
  by (simp add: handleMetadataEvent_def event_type_is_object)

lemma pending_after_resolution:
  "pendingApproval (state (handle_approval_resolution e event c))
     = (case pendingApproval (state c) of
          None \<Rightarrow> None
        | Some pending \<Rightarrow>
            if pendingId_of pending = [] \<or> resolvedId_of event = []
               \<or> pendingId_of pending = resolvedId_of event
            then None else Some pending)"
  by (simp add: handle_approval_resolution_def Let_def setState_def split: option.splits)

text \<open>
  C3, amended. The component holds its pending approval in one field, so there is one
  or none. An \<open>approval_request\<close> event puts its own request there, in place of whatever
  was pending. An \<open>approval_resolution\<close> event without a \<open>request_id\<close> leaves none
  pending. One whose \<open>request_id\<close> is a string that is not empty removes the pending
  approval exactly when that has no id (none, or the empty one) or the same id, and
  keeps it otherwise. In general the id of an event is its \<open>request_id\<close> when that is a
  string and the empty id otherwise, and the pending approval goes exactly when one of
  the two ids is empty or the two are equal: a \<open>request_id\<close> that is empty or not a
  string counts as none.
\<close>

theorem single_pending_approval:
  "(get event ''type'' = Some (JStr ''approval_request'')
      \<longrightarrow> map_option request_id (pendingApproval (state (snd (handleMetadataEvent e event c))))
            = Some (as_string (get event ''request_id''))
          \<and> map_option status (pendingApproval (state (snd (handleMetadataEvent e event c))))
            = Some Pending)
   \<and> (get event ''type'' = Some (JStr ''approval_resolution'') \<and> get event ''request_id'' = None
      \<longrightarrow> pendingApproval (state (snd (handleMetadataEvent e event c))) = None)
   \<and> (get event ''type'' = Some (JStr ''approval_resolution'')
        \<and> get event ''request_id'' = Some (JStr r) \<and> r \<noteq> []
      \<longrightarrow> pendingApproval (state (snd (handleMetadataEvent e event c)))
            = (case pendingApproval (state c) of
                 None \<Rightarrow> None
               | Some pending \<Rightarrow>
                   if request_id pending = None \<or> request_id pending = Some []
                      \<or> request_id pending = Some r
                   then None else Some pending))
   \<and> (get event ''type'' = Some (JStr ''approval_resolution'')
      \<longrightarrow> pendingApproval (state (snd (handleMetadataEvent e event c)))
            = (case pendingApproval (state c) of
                 None \<Rightarrow> None
               | Some pending \<Rightarrow>
                   if pendingId_of pending = [] \<or> resolvedId_of event = []
                      \<or> pendingId_of pending = resolvedId_of event
                   then None else Some pending))"
proof (intro conjI impI)
  assume t: "get event ''type'' = Some (JStr ''approval_request'')"
  then have ev: "\<exists>kvs. event = JObj kvs" by (cases event) simp_all
  have h: "handleMetadataEvent e event c = handle_approval_request e ''approval_request'' event c"
    using t by (rule handleMetadataEvent_request)
  show "map_option request_id (pendingApproval (state (snd (handleMetadataEvent e event c))))
            = Some (as_string (get event ''request_id''))"
    using ev by (auto simp: h handle_approval_request_def Let_def setState_def)
  show "map_option status (pendingApproval (state (snd (handleMetadataEvent e event c))))
            = Some Pending"
    using ev by (auto simp: h handle_approval_request_def Let_def setState_def)
next
  assume "get event ''type'' = Some (JStr ''approval_resolution'') \<and> get event ''request_id'' = None"
  then show "pendingApproval (state (snd (handleMetadataEvent e event c))) = None"
    by (simp add: handleMetadataEvent_resolution pending_after_resolution resolvedId_of_def
        split: option.splits)
next
  assume "get event ''type'' = Some (JStr ''approval_resolution'')
        \<and> get event ''request_id'' = Some (JStr r) \<and> r \<noteq> []"
  then show "pendingApproval (state (snd (handleMetadataEvent e event c)))
            = (case pendingApproval (state c) of
                 None \<Rightarrow> None
               | Some pending \<Rightarrow>
                   if request_id pending = None \<or> request_id pending = Some []
                      \<or> request_id pending = Some r
                   then None else Some pending)"
    by (auto simp: handleMetadataEvent_resolution pending_after_resolution resolvedId_of_def
        pendingId_of_def split: option.splits)
next
  assume "get event ''type'' = Some (JStr ''approval_resolution'')"
  then show "pendingApproval (state (snd (handleMetadataEvent e event c)))
            = (case pendingApproval (state c) of
                 None \<Rightarrow> None
               | Some pending \<Rightarrow>
                   if pendingId_of pending = [] \<or> resolvedId_of event = []
                      \<or> pendingId_of pending = resolvedId_of event
                   then None else Some pending)"
    by (simp add: handleMetadataEvent_resolution pending_after_resolution)
qed

lemma pending_of_with_pending [simp]: "pendingApproval (state (with_pending a c)) = a"
  by (simp add: with_pending_def setState_def)

theorem single_pending_approval_witness:
  "map_option request_id (pendingApproval (state (snd (handleMetadataEvent sample_env
       (request_event ''r2'') (with_pending (Some (sample_pending (Some ''r1'')))
          (sample_component None [] None)))))) = Some (Some ''r2'')
   \<and> pendingApproval (state (snd (handleMetadataEvent sample_env (resolution_event None)
         (with_pending (Some (sample_pending (Some ''r1''))) (sample_component None [] None)))))
       = None
   \<and> pendingApproval (state (snd (handleMetadataEvent sample_env
         (resolution_event (Some (JStr ''r2'')))
         (with_pending (Some (sample_pending (Some ''r1''))) (sample_component None [] None)))))
       = Some (sample_pending (Some ''r1''))
   \<and> pendingApproval (state (snd (handleMetadataEvent sample_env
         (resolution_event (Some (JStr ''r1'')))
         (with_pending (Some (sample_pending (Some ''r1''))) (sample_component None [] None)))))
       = None"
proof -
  let ?c = "with_pending (Some (sample_pending (Some ''r1''))) (sample_component None [] None)"
  note th = single_pending_approval [where e = sample_env and c = ?c]
  have a: "map_option request_id (pendingApproval (state (snd (handleMetadataEvent sample_env
       (request_event ''r2'') ?c)))) = Some (Some ''r2'')"
    using th [where event = "request_event ''r2''" and r = "''r2''"]
    by (simp add: request_event_def)
  have b: "pendingApproval (state (snd (handleMetadataEvent sample_env (resolution_event None) ?c)))
       = None"
    using th [where event = "resolution_event None" and r = "''r2''"]
    by (simp add: resolution_event_def opt_entry_def)
  have c: "pendingApproval (state (snd (handleMetadataEvent sample_env
         (resolution_event (Some (JStr ''r2''))) ?c))) = Some (sample_pending (Some ''r1''))"
    using th [where event = "resolution_event (Some (JStr ''r2''))" and r = "''r2''"]
    by (simp add: resolution_event_def opt_entry_def sample_pending_def)
  have d: "pendingApproval (state (snd (handleMetadataEvent sample_env
         (resolution_event (Some (JStr ''r1''))) ?c))) = None"
    using th [where event = "resolution_event (Some (JStr ''r1''))" and r = "''r1''"]
    by (simp add: resolution_event_def opt_entry_def sample_pending_def)
  from a b c d show ?thesis by simp
qed

text \<open>
  C3. The claim, as worded: an event carrying a \<open>request_id\<close> clears the pending approval
  only when the ids match or the pending record has no id. It fails on events that
  carry the number \<open>7\<close> or the empty string as \<open>request_id\<close>: each clears a pending
  approval whose id is \<open>r1\<close>.
\<close>

theorem resolution_with_unusable_id_clears:
  "get (resolution_event (Some (JNum ''7''))) ''request_id'' = Some (JNum ''7'')
   \<and> get (resolution_event (Some (JStr []))) ''request_id'' = Some (JStr [])
   \<and> request_id (sample_pending (Some ''r1'')) = Some ''r1''
   \<and> pendingApproval (state (snd (handleMetadataEvent sample_env
         (resolution_event (Some (JNum ''7'')))
         (with_pending (Some (sample_pending (Some ''r1''))) (sample_component None [] None)))))
       = None
   \<and> pendingApproval (state (snd (handleMetadataEvent sample_env
         (resolution_event (Some (JStr [])))
         (with_pending (Some (sample_pending (Some ''r1''))) (sample_component None [] None)))))
       = None"
proof -
  have t: "\<And>rid. get (resolution_event rid) ''type'' = Some (JStr ''approval_resolution'')"
    by (simp add: resolution_event_def)
  have g: "get (resolution_event (Some (JNum ''7''))) ''request_id'' = Some (JNum ''7'')"
          "get (resolution_event (Some (JStr []))) ''request_id'' = Some (JStr [])"
    by (simp_all add: resolution_event_def opt_entry_def)
  have r: "resolvedId_of (resolution_event (Some (JNum ''7''))) = []"
          "resolvedId_of (resolution_event (Some (JStr []))) = []"
    by (simp_all add: resolvedId_of_def g)
  have p: "request_id (sample_pending (Some ''r1'')) = Some ''r1''"
    by (simp add: sample_pending_def)
  show ?thesis
    by (simp add: handleMetadataEvent_resolution [OF t] pending_after_resolution r g p)
qed

subsection \<open>The default model\<close>

lemma selectedModel_setState [simp]:
  "selectedModel (state (setState (\<lambda>s. s\<lparr>selectedModel := v\<rparr>) c)) = v"
  by (simp add: setState_def)









lemma lower_latin1: "toLowerCase [CHR 0xC9, CHR ''A'', CHR 0xD7] = [CHR 0xE9, CHR ''a'', CHR 0xD7]"
  by (simp add: toLowerCase_def lower_char_def upper_letters_def lower_letters_def)




subsection \<open>Sending without a model\<close>

text \<open>
  C8. Whatever the prompt, sending while no model is selected issues no request, sets
  the error field and leaves the message log as it was: nothing but the error field of
  the component changes.
\<close>

theorem send_without_model:
  assumes "selectedModel (state (caller w)) = None"
  shows "requests (LibraryCapture_sendPrompt e p opts w) = requests w
         \<and> error (state (caller (LibraryCapture_sendPrompt e p opts w)))
             = Some ''Select a model before sending capture input.''
         \<and> messages (state (caller (LibraryCapture_sendPrompt e p opts w)))
             = messages (state (caller w))
         \<and> LibraryCapture_sendPrompt e p opts w
             = w\<lparr>caller := (caller w)\<lparr>state := (state (caller w))
                   \<lparr>error := Some ''Select a model before sending capture input.''\<rparr>\<rparr>\<rparr>"
  using assms by (simp add: LibraryCapture_sendPrompt_def on_component_def setState_def)

theorem send_without_model_witness:
  "requests (LibraryCapture_sendPrompt sample_env ''hello'' no_send_options
      (fresh_service (sample_component (Some (sample_api [] (JObj []))) [sample_model] None))) = []
   \<and> error (state (caller (LibraryCapture_sendPrompt sample_env ''hello'' no_send_options
      (fresh_service (sample_component (Some (sample_api [] (JObj []))) [sample_model] None)))))
       = Some ''Select a model before sending capture input.''
   \<and> messages (state (caller (LibraryCapture_sendPrompt sample_env ''hello'' no_send_options
      (fresh_service (sample_component (Some (sample_api [] (JObj []))) [sample_model] None)))))
       = []"
  using send_without_model [where e = sample_env and p = "''hello''" and opts = no_send_options
      and w = "fresh_service (sample_component (Some (sample_api [] (JObj []))) [sample_model] None)"]
  by (simp add: fresh_service_def sample_component_def sample_state_def)

subsection \<open>Transcript upload\<close>

lemma join_with_snoc:
  "xs \<noteq> [] \<Longrightarrow> join_with sep (xs @ [x]) = join_with sep xs @ sep @ x"
  by (induction sep xs rule: join_with.induct) simp_all

lemma transcript_prompt_ends_with_body:
  "transcript_prompt fname dateIso source scopePath body
     = join_with [CHR 0x0A] (transcript_header fname dateIso source scopePath) @ [CHR 0x0A] @ body"
proof -
  have "transcript_header fname dateIso source scopePath \<noteq> []"
    by (simp add: transcript_header_def)
  then show ?thesis by (simp add: transcript_prompt_def join_with_snoc)
qed

lemma processDocument_ok:
  assumes "api_post api = Some post"
    and "post ''/api/v1/documents/process'' (JStr (file_name file)) = Inr response"
    and "get (normalizeApiPayload response) ''processing_success'' = Some (JBool True)"
    and "get (normalizeApiPayload response) ''extracted_text'' = Some (JStr extracted)"
  shows "processDocument (Some api) file svc
           = (Inr (normalizeApiPayload response),
              svc\<lparr>requests := requests svc @ [POST_FORM ''/api/v1/documents/process'' (file_name file)]\<rparr>)"
proof -
  obtain kvs where k: "normalizeApiPayload response = JObj kvs"
    using assms(3) by (cases "normalizeApiPayload response") simp_all
  show ?thesis using assms k by (simp add: processDocument_def Let_def)
qed

lemma build_transcript_prompt_text:
  assumes "get processed ''extracted_text'' = Some (JStr extracted)"
  shows "build_transcript_prompt e c file processed
           = (if trim extracted = []
              then Inl (Error ''No transcript text was extracted from the uploaded file.'')
              else Inr (transcript_prompt (file_name file) (slice (now_iso e) 0 10)
                          (getDefaultTranscriptSource (props c))
                          (if scopeEnabled (state c) then selectedScopePath (state c) else None)
                          (if length (trim extracted) > 12000
                           then take 12000 (trim extracted) @ truncation_marker
                           else trim extracted)))"
proof (cases "extracted = []")
  case True
  with assms show ?thesis
    by (simp add: build_transcript_prompt_def String_or_def Let_def trim_def)
next
  case False
  with assms show ?thesis
    by (simp add: build_transcript_prompt_def String_or_def Let_def truncate_transcript_def slice_def)
qed


lemma sent_prompts_append:
  "sent_prompts (xs @ ys) = sent_prompts xs @ sent_prompts ys"
  by (simp add: sent_prompts_def map_filter_def)

lemma chat_content_build_request:
  "chat_content (POST chat_url (build_request e uid options))
     = Some (str_or (trim (prompt options)) ''Continue.'')"
  "chat_content (POST_STREAMING chat_url (build_request e uid options))
     = Some (str_or (trim (prompt options)) ''Continue.'')"
  by (simp_all add: chat_content_def build_request_def Let_def)

lemma requests_initializeUserId:
  "sent_prompts (requests (initializeUserId api svc)) = sent_prompts (requests svc)"
  by (simp add: initializeUserId_def Let_def sent_prompts_append sent_prompts_def map_filter_def
      chat_content_def split: option.splits sum.splits)

lemma service_send_requests:
  assumes "api_post api = Some post"
  shows "sent_prompts (requests (snd (captureService_sendPrompt e (Some api) cb options svc)))
           = sent_prompts (requests svc) @ [str_or (trim (prompt options)) ''Continue.'']"
proof -
  have s: "\<And>r. sent_prompts [r] = (case chat_content r of Some p \<Rightarrow> [p] | None \<Rightarrow> [])"
    by (simp add: sent_prompts_def map_filter_def split: option.splits)
  show ?thesis
    using assms
    by (auto simp: captureService_sendPrompt_def Let_def sent_prompts_append s
        chat_content_build_request requests_initializeUserId
        split: option.splits prod.splits sum.splits)
qed

lemma trim_fixed:
  assumes "s \<noteq> []" and "\<not> is_ws (hd s)" and "\<not> is_ws (last s)"
  shows "trim s = s"
proof -
  from assms(1,2) have a: "dropWhile is_ws s = s" by (cases s) simp_all
  from assms(1,3) have b: "dropWhile is_ws (rev s) = rev s"
    by (cases "rev s") (simp_all add: hd_rev [symmetric] del: hd_rev)
  show ?thesis by (simp add: trim_def a b)
qed

lemma trim_ends:
  assumes "trim s \<noteq> []"
  shows "\<not> is_ws (hd (trim s))" and "\<not> is_ws (last (trim s))"
proof -
  define d where "d = dropWhile is_ws s"
  define r where "r = dropWhile is_ws (rev d)"
  have t: "trim s = rev r" by (simp add: trim_def d_def r_def)
  from assms have r: "r \<noteq> []" by (simp add: t)
  have d: "d \<noteq> []"
  proof
    assume "d = []"
    then have "r = []" by (simp add: r_def)
    with r show False by simp
  qed
  have "last (trim s) = hd r" using r by (simp add: t last_rev)
  moreover have "\<not> is_ws (hd r)" using r unfolding r_def by (rule hd_dropWhile)
  ultimately show "\<not> is_ws (last (trim s))" by simp
  have "rev d = takeWhile is_ws (rev d) @ r" by (simp add: r_def)
  then have "last (rev d) = last (takeWhile is_ws (rev d) @ r)" by simp
  also have "\<dots> = last r" using r by (rule last_appendR)
  finally have l: "last r = last (rev d)" by simp
  have "hd (trim s) = last r" using r by (simp add: t hd_rev)
  also have "\<dots> = hd d" using d by (simp add: l last_rev)
  finally have "hd (trim s) = hd d" .
  moreover have "\<not> is_ws (hd d)" using d unfolding d_def by (rule hd_dropWhile)
  ultimately show "\<not> is_ws (hd (trim s))" by simp
qed

lemma trim_idem: "trim (trim s) = trim s"
proof (cases "trim s = []")
  case True
  have "trim [] = []" by (simp add: trim_def)
  with True show ?thesis by metis
next
  case False
  then show ?thesis by (intro trim_fixed trim_ends)
qed

lemma component_send_requests:
  assumes "selectedModel (state (caller w)) = Some model" and "trim p \<noteq> []"
    and "services_api (props (caller w)) = Some api" and "api_post api = Some post"
  shows "sent_prompts (requests (LibraryCapture_sendPrompt e p opts w))
           = sent_prompts (requests w) @ [trim p]"
proof -
  have pr: "\<And>k c. props (setState k c) = props c"
           "\<And>k c. props (snd (generateId k c)) = props c"
           "\<And>m c. props (appendMessage m c) = props c"
           "\<And>k s t a b c. props (append_new e k s t a b c) = props c"
    by (simp_all add: setState_def generateId_def appendMessage_def append_new_def Let_def
        split: prod.splits)
  have rq: "\<And>x. requests (without_flag x) = requests x"
           "\<And>h x. requests (with_flag h x) = requests x"
    by (simp_all add: without_flag_def with_flag_def)
  show ?thesis
    using assms(1,2)
    by (simp add: LibraryCapture_sendPrompt_def Let_def split_beta pr rq assms(3)
        service_send_requests [OF assms(4)] trim_idem str_or_def)
qed

lemma requests_on_component:
  "requests (on_component f w) = requests w"
  by (simp add: on_component_def)

lemma requests_transcript_failed:
  "requests (transcript_failed e err w) = requests w"
  by (simp add: transcript_failed_def on_component_def)

lemma transcript_upload_result:
  assumes "services_api (props (caller w)) = Some api" and "api_post api = Some post"
    and "post ''/api/v1/documents/process'' (JStr (file_name upload)) = Inr response"
    and "get (normalizeApiPayload response) ''processing_success'' = Some (JBool True)"
    and "get (normalizeApiPayload response) ''extracted_text'' = Some (JStr extracted)"
  shows "handleTranscriptSelected e (Some upload) w
           = on_component (setState (\<lambda>s. s\<lparr>isProcessingTranscript := False\<rparr>))
               (if trim extracted = []
                then transcript_failed e
                       (Error ''No transcript text was extracted from the uploaded file.'')
                       ((on_component (setState (\<lambda>s. s\<lparr>isProcessingTranscript := True,
                                                             transcriptError := None\<rparr>)) w)
                         \<lparr>requests := requests w @ [POST_FORM ''/api/v1/documents/process'' (file_name upload)]\<rparr>)
                else LibraryCapture_sendPrompt e
                       (join_with [CHR 0x0A]
                             (transcript_header (file_name upload) (slice (now_iso e) 0 10)
                                (getDefaultTranscriptSource (props (caller w)))
                                (if scopeEnabled (state (caller w))
                                 then selectedScopePath (state (caller w)) else None))
                        @ [CHR 0x0A]
                        @ (if length (trim extracted) > 12000
                           then take 12000 (trim extracted) @ truncation_marker
                           else trim extracted))
                       \<lparr> send_approvalDecision = None,
                         userLabel = Some (''Uploaded transcript: '' @ file_name upload) \<rparr>
                       ((on_component (setState (\<lambda>s. s\<lparr>isProcessingTranscript := True,
                                                             transcriptError := None\<rparr>)) w)
                         \<lparr>requests := requests w @ [POST_FORM ''/api/v1/documents/process'' (file_name upload)]\<rparr>))"
proof -
  let ?w1 = "on_component (setState (\<lambda>s. s\<lparr>isProcessingTranscript := True,
                                                transcriptError := None\<rparr>)) w"
  have p1: "props (caller ?w1) = props (caller w)"
    by (simp add: on_component_def setState_def)
  have r1: "requests ?w1 = requests w" by (simp add: on_component_def)
  have pd: "processDocument (services_api (props (caller ?w1))) upload ?w1
              = (Inr (normalizeApiPayload response),
                 ?w1\<lparr>requests := requests ?w1 @ [POST_FORM ''/api/v1/documents/process'' (file_name upload)]\<rparr>)"
    unfolding p1 assms(1) by (rule processDocument_ok [OF assms(2-5)])
  have c2: "props (caller ?w1) = props (caller w)"
           "scopeEnabled (state (caller ?w1)) = scopeEnabled (state (caller w))"
           "selectedScopePath (state (caller ?w1)) = selectedScopePath (state (caller w))"
    by (simp_all add: on_component_def setState_def)
  have bt: "build_transcript_prompt e (caller ?w1) upload (normalizeApiPayload response)
              = (if trim extracted = []
                 then Inl (Error ''No transcript text was extracted from the uploaded file.'')
                 else Inr (transcript_prompt (file_name upload) (slice (now_iso e) 0 10)
                             (getDefaultTranscriptSource (props (caller w)))
                             (if scopeEnabled (state (caller w))
                              then selectedScopePath (state (caller w)) else None)
                             (if length (trim extracted) > 12000
                              then take 12000 (trim extracted) @ truncation_marker
                              else trim extracted)))"
    by (simp only: build_transcript_prompt_text [OF assms(5)] c2)
  show ?thesis
    by (simp add: handleTranscriptSelected_def Let_def pd r1 bt transcript_prompt_ends_with_body
        del: append.simps)
qed

lemma transcript_prompt_trimmed:
  assumes "trim extracted \<noteq> []"
  shows "trim (join_with [CHR 0x0A] (transcript_header fname dateIso source scopePath)
               @ [CHR 0x0A]
               @ (if length (trim extracted) > 12000
                  then take 12000 (trim extracted) @ truncation_marker
                  else trim extracted))
         = join_with [CHR 0x0A] (transcript_header fname dateIso source scopePath)
           @ [CHR 0x0A]
           @ (if length (trim extracted) > 12000
              then take 12000 (trim extracted) @ truncation_marker
              else trim extracted)"
proof (rule trim_fixed)
  let ?h = "join_with [CHR 0x0A] (transcript_header fname dateIso source scopePath)"
  let ?b = "if length (trim extracted) > 12000
            then take 12000 (trim extracted) @ truncation_marker else trim extracted"
  have h: "hd ?h = CHR ''C''" "?h \<noteq> []"
    by (simp_all add: transcript_header_def)
  have b: "?b \<noteq> []" using assms by (simp add: truncation_marker_def)
  have l: "\<not> is_ws (last ?b)"
    using trim_ends(2) [OF assms] by (simp add: truncation_marker_def is_ws_def)
  show "?h @ [CHR 0x0A] @ ?b \<noteq> []" using b by simp
  show "\<not> is_ws (hd (?h @ [CHR 0x0A] @ ?b))"
    using h by (simp add: is_ws_def)
  have x: "last (?h @ [CHR 0x0A] @ ?b) = last ?b" using b by (simp del: append.simps)
  show "\<not> is_ws (last (?h @ [CHR 0x0A] @ ?b))" unfolding x by (rule l)
qed

text \<open>
  C9, amended. When the document processor has answered with an extracted text, the
  upload works on that text with the white space at its two ends (a no-break space
  included) trimmed off. If nothing is left, the upload fails: the error is recorded and
  shown, and no prompt goes to the backend. Otherwise the upload follows the send path
  with the prompt that ends with the trimmed text itself when that has at most 12,000
  characters, and with its first 12,000 characters followed by the truncation marker
  when it has more; with a model selected exactly that prompt goes to the backend as
  the content of one chat request, and with no model selected none does.
\<close>

theorem transcript_truncation:
  assumes "services_api (props (caller w)) = Some api" and "api_post api = Some post"
    and "post ''/api/v1/documents/process'' (JStr (file_name upload)) = Inr response"
    and "get (normalizeApiPayload response) ''processing_success'' = Some (JBool True)"
    and "get (normalizeApiPayload response) ''extracted_text'' = Some (JStr extracted)"
  shows "(let w2 = (on_component (setState (\<lambda>s. s\<lparr>isProcessingTranscript := True,
                                                         transcriptError := None\<rparr>)) w)
                     \<lparr>requests := requests w @ [POST_FORM ''/api/v1/documents/process'' (file_name upload)]\<rparr>;
              body = (if length (trim extracted) > 12000
                      then take 12000 (trim extracted) @ truncation_marker
                      else trim extracted);
              header = join_with [CHR 0x0A]
                         (transcript_header (file_name upload) (slice (now_iso e) 0 10)
                            (getDefaultTranscriptSource (props (caller w)))
                            (if scopeEnabled (state (caller w))
                             then selectedScopePath (state (caller w)) else None))
          in handleTranscriptSelected e (Some upload) w
               = on_component (setState (\<lambda>s. s\<lparr>isProcessingTranscript := False\<rparr>))
                   (if trim extracted = []
                    then transcript_failed e
                           (Error ''No transcript text was extracted from the uploaded file.'') w2
                    else LibraryCapture_sendPrompt e (header @ [CHR 0x0A] @ body)
                           \<lparr> send_approvalDecision = None,
                             userLabel = Some (''Uploaded transcript: '' @ file_name upload) \<rparr> w2)
             \<and> sent_prompts (requests (handleTranscriptSelected e (Some upload) w))
                 = sent_prompts (requests w)
                   @ (if trim extracted = [] \<or> selectedModel (state (caller w)) = None then []
                      else [header @ [CHR 0x0A] @ body])
             \<and> (trim extracted = []
                  \<longrightarrow> transcriptError (state (caller (handleTranscriptSelected e (Some upload) w)))
                        = Some ''No transcript text was extracted from the uploaded file.''))"
proof -
  let ?w2 = "(on_component (setState (\<lambda>s. s\<lparr>isProcessingTranscript := True,
                                                   transcriptError := None\<rparr>)) w)
               \<lparr>requests := requests w @ [POST_FORM ''/api/v1/documents/process'' (file_name upload)]\<rparr>"
  let ?body = "if length (trim extracted) > 12000
               then take 12000 (trim extracted) @ truncation_marker else trim extracted"
  let ?header = "join_with [CHR 0x0A]
                   (transcript_header (file_name upload) (slice (now_iso e) 0 10)
                      (getDefaultTranscriptSource (props (caller w)))
                      (if scopeEnabled (state (caller w))
                       then selectedScopePath (state (caller w)) else None))"
  let ?prompt = "?header @ [CHR 0x0A] @ ?body"
  let ?opts = "\<lparr> send_approvalDecision = None,
                 userLabel = Some (''Uploaded transcript: '' @ file_name upload) \<rparr>"
  note eq = transcript_upload_result [OF assms, where e = e]
  have w2: "props (caller ?w2) = props (caller w)"
           "selectedModel (state (caller ?w2)) = selectedModel (state (caller w))"
           "sent_prompts (requests ?w2) = sent_prompts (requests w)"
    by (simp_all add: on_component_def setState_def sent_prompts_append)
       (simp add: sent_prompts_def map_filter_def chat_content_def)
  have none: "selectedModel (state (caller w)) = None
                \<Longrightarrow> requests (LibraryCapture_sendPrompt e ?prompt ?opts ?w2) = requests ?w2"
    by (simp add: LibraryCapture_sendPrompt_def on_component_def setState_def)
  have some: "trim extracted \<noteq> [] \<Longrightarrow> selectedModel (state (caller w)) \<noteq> None
                \<Longrightarrow> sent_prompts (requests (LibraryCapture_sendPrompt e ?prompt ?opts ?w2))
                    = sent_prompts (requests w) @ [?prompt]"
  proof -
    assume t: "trim extracted \<noteq> []" and m: "selectedModel (state (caller w)) \<noteq> None"
    from m obtain model where "selectedModel (state (caller w)) = Some model" by auto
    then have m': "selectedModel (state (caller ?w2)) = Some model" by (simp only: w2(2))
    have p: "trim ?prompt = ?prompt" by (rule transcript_prompt_trimmed [OF t])
    have ne: "trim ?prompt \<noteq> []" unfolding p by simp
    have a: "services_api (props (caller ?w2)) = Some api" by (simp only: w2(1) assms(1))
    show ?thesis
      using component_send_requests [OF m' ne a assms(2), where e = e and opts = ?opts]
      by (simp only: p w2(3))
  qed
  have s: "sent_prompts (requests (handleTranscriptSelected e (Some upload) w))
             = sent_prompts (requests w)
               @ (if trim extracted = [] \<or> selectedModel (state (caller w)) = None then []
                  else [?prompt])"
  proof (cases "trim extracted = []")
    case True
    then show ?thesis
      by (simp only: eq if_True requests_on_component requests_transcript_failed w2(3) simp_thms
          append_Nil2)
  next
    case False
    show ?thesis
    proof (cases "selectedModel (state (caller w)) = None")
      case True
      with False show ?thesis
        by (simp only: eq if_False requests_on_component none [OF True] w2(3) simp_thms if_True
            append_Nil2)
    next
      case m: False
      with False show ?thesis
        by (simp only: eq if_False requests_on_component some [OF False m] simp_thms)
    qed
  qed
  have f: "trim extracted = []
             \<longrightarrow> transcriptError (state (caller (handleTranscriptSelected e (Some upload) w)))
                   = Some ''No transcript text was extracted from the uploaded file.''"
    by (simp add: eq transcript_failed_def on_component_def setState_def append_new_def
        generateId_def appendMessage_def message_of_def Let_def split: prod.splits)
  from eq s f show ?thesis by (simp only: Let_def simp_thms)
qed

lemma sample_transcript_facts:
  "slice (now_iso sample_env) 0 10 = ''2026-01-02''"
  "getDefaultTranscriptSource (sample_props api) = ''capture-upload''"
  by (simp_all add: sample_env_def slice_def getDefaultTranscriptSource_def
      getConfiguredStringValue_def sample_props_def str_or_def)

lemma sample_upload_facts:
  "services_api (props (caller (fresh_service (sample_component (Some api) ms sel)))) = Some api"
  "api_post (sample_api [] r) = Some (\<lambda>url body. Inr r)"
  "get (normalizeApiPayload (transcript_response x)) ''processing_success'' = Some (JBool True)"
  "get (normalizeApiPayload (transcript_response x)) ''extracted_text'' = Some (JStr x)"
  "props (caller (fresh_service (sample_component (Some api) ms sel))) = sample_props (Some api)"
  "scopeEnabled (state (caller (fresh_service (sample_component (Some api) ms sel)))) = False"
  "selectedModel (state (caller (fresh_service (sample_component (Some api) ms sel)))) = sel"
  "requests (fresh_service (sample_component (Some api) ms sel)) = []"
  "file_name sample_file = ''notes.txt''"
  by (simp_all add: fresh_service_def sample_component_def sample_props_def sample_state_def
      sample_api_def sample_file_def normalizeApiPayload_def transcript_response_def)

lemma sample_trims:
  "trim long_text = replicate 12001 (CHR ''a'')"
  "trim ''  hello '' = ''hello''"
  "trim [CHR 0xA0] = []"
  by (simp_all add: long_text_def trim_def is_ws_def)

theorem transcript_truncation_witness:
  "sent_prompts (requests (handleTranscriptSelected sample_env (Some sample_file)
       (fresh_service (sample_component (Some (sample_api [] (transcript_response long_text)))
                         [sample_model] (Some sample_model)))))
     = [join_with [CHR 0x0A] (transcript_header ''notes.txt'' ''2026-01-02'' ''capture-upload'' None)
        @ [CHR 0x0A] @ replicate 12000 (CHR ''a'') @ truncation_marker]
   \<and> sent_prompts (requests (handleTranscriptSelected sample_env (Some sample_file)
       (fresh_service (sample_component (Some (sample_api [] (transcript_response ''  hello '')))
                         [sample_model] (Some sample_model)))))
     = [join_with [CHR 0x0A] (transcript_header ''notes.txt'' ''2026-01-02'' ''capture-upload'' None)
        @ [CHR 0x0A] @ ''hello'']
   \<and> sent_prompts (requests (handleTranscriptSelected sample_env (Some sample_file)
       (fresh_service (sample_component (Some (sample_api [] (transcript_response [CHR 0xA0])))
                         [sample_model] (Some sample_model)))))
     = []
   \<and> transcriptError (state (caller (handleTranscriptSelected sample_env (Some sample_file)
       (fresh_service (sample_component (Some (sample_api [] (transcript_response [CHR 0xA0])))
                         [sample_model] (Some sample_model))))))
     = Some ''No transcript text was extracted from the uploaded file.''
   \<and> sent_prompts (requests (handleTranscriptSelected sample_env (Some sample_file)
       (fresh_service (sample_component (Some (sample_api [] (transcript_response long_text)))
                         [] None))))
     = []"
proof -
  have h3: "\<And>r. (\<lambda>url body. Inr r) ''/api/v1/documents/process'' (JStr (file_name sample_file))
            = (Inr r :: error + json)"
    by simp
  note long = transcript_truncation [where upload = sample_file and e = sample_env
        and extracted = long_text
        and w = "fresh_service (sample_component (Some (sample_api [] (transcript_response long_text)))
                                  [sample_model] (Some sample_model))",
      OF sample_upload_facts(1) sample_upload_facts(2) h3 sample_upload_facts(3)
         sample_upload_facts(4), unfolded Let_def, THEN conjunct2]
  note short = transcript_truncation [where upload = sample_file and e = sample_env
        and extracted = "''  hello ''"
        and w = "fresh_service (sample_component (Some (sample_api [] (transcript_response ''  hello '')))
                                  [sample_model] (Some sample_model))",
      OF sample_upload_facts(1) sample_upload_facts(2) h3 sample_upload_facts(3)
         sample_upload_facts(4), unfolded Let_def, THEN conjunct2]
  note blank = transcript_truncation [where upload = sample_file and e = sample_env
        and extracted = "[CHR 0xA0]"
        and w = "fresh_service (sample_component (Some (sample_api [] (transcript_response [CHR 0xA0])))
                                  [sample_model] (Some sample_model))",
      OF sample_upload_facts(1) sample_upload_facts(2) h3 sample_upload_facts(3)
         sample_upload_facts(4), unfolded Let_def, THEN conjunct2]
  note unselected = transcript_truncation [where upload = sample_file and e = sample_env
        and extracted = long_text
        and w = "fresh_service (sample_component (Some (sample_api [] (transcript_response long_text)))
                                  [] None)",
      OF sample_upload_facts(1) sample_upload_facts(2) h3 sample_upload_facts(3)
         sample_upload_facts(4), unfolded Let_def, THEN conjunct2]
  have e: "sent_prompts [] = []" by (simp add: sent_prompts_def map_filter_def)
  have a: "sent_prompts (requests (handleTranscriptSelected sample_env (Some sample_file)
       (fresh_service (sample_component (Some (sample_api [] (transcript_response long_text)))
                         [sample_model] (Some sample_model)))))
     = [join_with [CHR 0x0A] (transcript_header ''notes.txt'' ''2026-01-02'' ''capture-upload'' None)
        @ [CHR 0x0A] @ replicate 12000 (CHR ''a'') @ truncation_marker]"
    using long [THEN conjunct1]
    by (simp add: sample_upload_facts(5-9) sample_trims sample_transcript_facts e
        del: append.simps)
  have b: "sent_prompts (requests (handleTranscriptSelected sample_env (Some sample_file)
       (fresh_service (sample_component (Some (sample_api [] (transcript_response ''  hello '')))
                         [sample_model] (Some sample_model)))))
     = [join_with [CHR 0x0A] (transcript_header ''notes.txt'' ''2026-01-02'' ''capture-upload'' None)
        @ [CHR 0x0A] @ ''hello'']"
    using short [THEN conjunct1]
    by (simp add: sample_upload_facts(5-9) sample_trims sample_transcript_facts e
        del: append.simps)
  have c: "sent_prompts (requests (handleTranscriptSelected sample_env (Some sample_file)
       (fresh_service (sample_component (Some (sample_api [] (transcript_response [CHR 0xA0])))
                         [sample_model] (Some sample_model)))))
     = []"
    using blank [THEN conjunct1]
    by (simp add: sample_upload_facts(5-9) sample_trims e)
  have d: "transcriptError (state (caller (handleTranscriptSelected sample_env (Some sample_file)
       (fresh_service (sample_component (Some (sample_api [] (transcript_response [CHR 0xA0])))
                         [sample_model] (Some sample_model))))))
     = Some ''No transcript text was extracted from the uploaded file.''"
    using blank [THEN conjunct2]
    by (simp add: sample_trims)
  have f: "sent_prompts (requests (handleTranscriptSelected sample_env (Some sample_file)
       (fresh_service (sample_component (Some (sample_api [] (transcript_response long_text)))
                         [] None))))
     = []"
    using unselected [THEN conjunct1]
    by (simp add: sample_upload_facts(5-9) sample_trims e)
  from a b c d f show ?thesis by (intro conjI)
qed

text \<open>
  C9. The claim, as worded, speaks of the extracted text itself. It fails on an
  extracted text with white space at an end. The two characters \<open>" a"\<close> are included as
  \<open>"a"\<close>, not unmodified. A blank followed by 12,000 letters, which is longer than
  12,000 characters, is included as the 12,000 letters with no truncation marker. And
  of a blank followed by 12,001 letters the prompt holds the first 12,000 letters before
  the marker, where the first 12,000 characters of the extracted text are the blank
  and 11,999 letters.
\<close>

theorem transcript_text_is_trimmed:
  "build_transcript_prompt sample_env (sample_component None [] None) sample_file
       (transcript_response '' a'')
     = Inr (join_with [CHR 0x0A]
              (transcript_header ''notes.txt'' ''2026-01-02'' ''capture-upload'' None)
            @ [CHR 0x0A] @ ''a'')
   \<and> length (CHR '' '' # replicate 12000 (CHR ''a'')) > 12000
   \<and> build_transcript_prompt sample_env (sample_component None [] None) sample_file
       (transcript_response (CHR '' '' # replicate 12000 (CHR ''a'')))
     = Inr (join_with [CHR 0x0A]
              (transcript_header ''notes.txt'' ''2026-01-02'' ''capture-upload'' None)
            @ [CHR 0x0A] @ replicate 12000 (CHR ''a''))
   \<and> build_transcript_prompt sample_env (sample_component None [] None) sample_file
       (transcript_response (CHR '' '' # replicate 12001 (CHR ''a'')))
     = Inr (join_with [CHR 0x0A]
              (transcript_header ''notes.txt'' ''2026-01-02'' ''capture-upload'' None)
            @ [CHR 0x0A] @ replicate 12000 (CHR ''a'') @ truncation_marker)
   \<and> take 12000 (CHR '' '' # replicate 12001 (CHR ''a'')) = CHR '' '' # replicate 11999 (CHR ''a'')"
proof -
  have g: "\<And>x. get (transcript_response x) ''extracted_text'' = Some (JStr x)"
    by (simp add: transcript_response_def)
  have f: "props (sample_component None [] None) = sample_props None"
          "scopeEnabled (state (sample_component None [] None)) = False"
          "file_name sample_file = ''notes.txt''"
    by (simp_all add: sample_component_def sample_state_def sample_file_def)
  have t1: "trim '' a'' = ''a''" by (simp add: trim_def is_ws_def)
  have t2: "trim (CHR '' '' # replicate 12000 (CHR ''a'')) = replicate 12000 (CHR ''a'')"
    by (simp add: trim_def is_ws_def)
  have t3: "trim (CHR '' '' # replicate 12001 (CHR ''a'')) = replicate 12001 (CHR ''a'')"
    by (simp add: trim_def is_ws_def)
  have a: "build_transcript_prompt sample_env (sample_component None [] None) sample_file
       (transcript_response '' a'')
     = Inr (join_with [CHR 0x0A]
              (transcript_header ''notes.txt'' ''2026-01-02'' ''capture-upload'' None)
            @ [CHR 0x0A] @ ''a'')"
    by (simp add: build_transcript_prompt_text [OF g] t1 f sample_transcript_facts
        transcript_prompt_ends_with_body del: append.simps)
  have b: "build_transcript_prompt sample_env (sample_component None [] None) sample_file
       (transcript_response (CHR '' '' # replicate 12000 (CHR ''a'')))
     = Inr (join_with [CHR 0x0A]
              (transcript_header ''notes.txt'' ''2026-01-02'' ''capture-upload'' None)
            @ [CHR 0x0A] @ replicate 12000 (CHR ''a''))"
    by (simp add: build_transcript_prompt_text [OF g] t2 f sample_transcript_facts
        transcript_prompt_ends_with_body del: append.simps)
  have c: "build_transcript_prompt sample_env (sample_component None [] None) sample_file
       (transcript_response (CHR '' '' # replicate 12001 (CHR ''a'')))
     = Inr (join_with [CHR 0x0A]
              (transcript_header ''notes.txt'' ''2026-01-02'' ''capture-upload'' None)
            @ [CHR 0x0A] @ replicate 12000 (CHR ''a'') @ truncation_marker)"
    by (simp add: build_transcript_prompt_text [OF g] t3 f sample_transcript_facts
        transcript_prompt_ends_with_body del: append.simps)
  have d: "take 12000 (CHR '' '' # replicate 12001 (CHR ''a'')) = CHR '' '' # replicate 11999 (CHR ''a'')"
    by simp
  from a b c d show ?thesis by simp
qed
section \<open>Properties of the page defaults service\<close>

lemma save_success_targets:
  "saveCaptureDefaultModelForPage e api_opt options = (Inr r, issued) \<Longrightarrow> 1 \<le> updated_targets r"
  by (auto simp: saveCaptureDefaultModelForPage_def Let_def
      split: option.splits sum.splits prod.splits if_splits)

lemma save_after_fetch:
  assumes "api_get api = Some get_page" and "api_put api = Some put_page"
    and "normalizePageId (save_pageId options) = pid" and "pid \<noteq> []"
    and "normalizeToken_str (case save_moduleId options of Some m \<Rightarrow> m | None \<Rightarrow> []) = req"
    and "buildDefaultModelConfig (save_selectedModel options) = Inr cfg"
    and "get_page (page_url pid) = Inr pageResponse"
    and "extractPageRecord pageResponse = Inr pageRecord"
    and "parsePageContent e (get pageRecord ''content'') = Inr pageContent"
  shows "saveCaptureDefaultModelForPage e (Some api) options
           = (if matched_targets pageContent cfg req < 1
              then (Inl could_not_locate, [GET (page_url pid)])
              else (case put_page (page_url pid) (JObj [(''content'', updated_content pageContent cfg req)]) of
                      Inl err \<Rightarrow> Inl err
                    | Inr putResponse \<Rightarrow>
                        Inr \<lparr> saved_pageId = pid,
                              saved_default_model_key = config_text cfg ''default_model_key'',
                              saved_default_model_provider = config_text cfg ''default_model_provider'',
                              saved_default_model_server_id = config_text cfg ''default_model_server_id'',
                              saved_default_model_name = config_text cfg ''default_model_name'',
                              updated_targets = matched_targets pageContent cfg req \<rparr>,
                    [GET (page_url pid),
                     PUT (page_url pid) (JObj [(''content'', updated_content pageContent cfg req)])]))"
  using assms
  by (simp add: saveCaptureDefaultModelForPage_def Let_def matched_targets_def updated_content_def
      split: prod.splits sum.splits)

lemma modules_count:
  "snd (applyDefaultModelToModules c cfg req) = length (module_targets req c)"
  by (simp add: applyDefaultModelToModules_def module_targets_def Let_def split: option.splits)

lemma layout_results_count:
  "sum_list (map (snd \<circ> (apply_to_layout cfg req \<circ> snd)) es)
   = length (concat (map ((\<lambda>v. case v of JArr items \<Rightarrow> filter (layout_item_is_target req) items
                                | other \<Rightarrow> []) \<circ> snd) es))"
  by (induction es) (simp_all add: apply_to_layout_def split: json.splits)

lemma layouts_count:
  "snd (applyDefaultModelToLayouts c cfg req) = length (layout_targets req c)"
  by (simp add: applyDefaultModelToLayouts_def layout_targets_def Let_def layout_results_count
      split: option.splits)

lemma layouts_after_modules:
  "get (fst (applyDefaultModelToModules c cfg req)) ''layouts'' = get c ''layouts''"
  by (cases c) (simp_all add: applyDefaultModelToModules_def Let_def update_conv' split: option.splits)

lemma layout_targets_after_modules:
  "layout_targets req (fst (applyDefaultModelToModules c cfg req)) = layout_targets req c"
  by (simp add: layout_targets_def layouts_after_modules)

lemma matched_targets_count:
  "matched_targets c cfg req = length (module_targets req c) + length (layout_targets req c)"
  by (simp add: matched_targets_def modules_count layouts_count layout_targets_after_modules)

lemma layout_results_values:
  "map (fst \<circ> (apply_to_layout cfg req \<circ> snd)) es
   = map ((\<lambda>v. case v of
                 JArr items \<Rightarrow>
                   JArr (map (\<lambda>item. if layout_item_is_target req item
                                      then merge_member ''args'' cfg item else item) items)
               | other \<Rightarrow> other) \<circ> snd) es"
  by (induction es) (simp_all add: apply_to_layout_def split: json.splits)

lemma modules_content:
  "fst (applyDefaultModelToModules (JObj kvs) cfg req)
   = JObj (case map_of kvs ''modules'' of
             Some m \<Rightarrow> if is_object (Some m) then AList.update ''modules'' (merged_modules req cfg m) kvs else kvs
           | None \<Rightarrow> kvs)"
  by (simp add: applyDefaultModelToModules_def merged_modules_def Let_def split: option.splits)

lemma layouts_content:
  "fst (applyDefaultModelToLayouts (JObj kvs) cfg req)
   = JObj (case map_of kvs ''layouts'' of
             Some l \<Rightarrow> if is_object (Some l) then AList.update ''layouts'' (merged_layouts req cfg l) kvs else kvs
           | None \<Rightarrow> kvs)"
  by (simp add: applyDefaultModelToLayouts_def merged_layouts_def Let_def layout_results_values
      split: option.splits)

lemma updated_content_merged:
  "updated_content c cfg req = merged_content req cfg c"
proof (cases c)
  case (JObj kvs)
  have l: "map_of (case map_of kvs ''modules'' of
             Some m \<Rightarrow> if is_object (Some m) then AList.update ''modules'' (merged_modules req cfg m) kvs else kvs
           | None \<Rightarrow> kvs) ''layouts'' = map_of kvs ''layouts''"
    by (simp add: update_conv' split: option.splits)
  show ?thesis
    unfolding updated_content_def JObj modules_content layouts_content l
    by (simp add: merged_content_def Let_def)
qed (simp_all add: updated_content_def merged_content_def applyDefaultModelToModules_def
      applyDefaultModelToLayouts_def)

lemma spread_lookup:
  "map_of (spread base kvs) k
   = (case map_of (rev kvs) k of Some v \<Rightarrow> Some v | None \<Rightarrow> map_of base k)"
proof (induction kvs arbitrary: base)
  case Nil
  then show ?case by (simp add: spread_def)
next
  case (Cons a kvs)
  obtain k' v' where a: "a = (k', v')" by (cases a)
  have s: "spread base (a # kvs) = spread (AList.update k' v' base) kvs"
    by (simp add: spread_def a)
  show ?case
    unfolding s Cons.IH
    by (simp add: a update_conv' map_add_def split: option.splits)
qed

lemma merge_member_lookup:
  "get (merge_member k cfg (JObj d)) k
   = Some (JObj (spread (own_entries (object_member (JObj d) k)) cfg))"
  by (simp add: merge_member_def update_conv')

text \<open>
  C7. A save never succeeds with zero updated targets. Once the page has been read and
  its content parsed, the matches are the entries of the content's \<open>modules\<close> that are
  capture module definitions together with the items of the arrays under the content's
  \<open>layouts\<close> that are capture layout items. When there is none in either place, the save
  throws the "could not locate" error and its only request is the page read, so no
  update is issued. When there is one in either place, the save issues the update, whose
  content has the model configuration merged into the \<open>config\<close> of each matching module
  and into the \<open>args\<close> of each matching layout item; the update refused, the save throws
  that error; the update accepted, the save returns the number of matches across both
  places. The merged member holds the former entries overwritten by the model
  configuration.
\<close>

theorem save_default_model_targets:
  assumes "api_get api = Some get_page" and "api_put api = Some put_page"
    and "normalizePageId (save_pageId options) = pid" and "pid \<noteq> []"
    and "normalizeToken_str (case save_moduleId options of Some m \<Rightarrow> m | None \<Rightarrow> []) = req"
    and "buildDefaultModelConfig (save_selectedModel options) = Inr cfg"
    and "get_page (page_url pid) = Inr pageResponse"
    and "extractPageRecord pageResponse = Inr pageRecord"
    and "parsePageContent e (get pageRecord ''content'') = Inr pageContent"
  shows "(\<forall>e' api' options' r issued.
            saveCaptureDefaultModelForPage e' api' options' = (Inr r, issued) \<longrightarrow> 1 \<le> updated_targets r)
         \<and> (module_targets req pageContent = [] \<and> layout_targets req pageContent = []
              \<longrightarrow> saveCaptureDefaultModelForPage e (Some api) options
                    = (Inl could_not_locate, [GET (page_url pid)]))
         \<and> (module_targets req pageContent \<noteq> [] \<or> layout_targets req pageContent \<noteq> []
              \<longrightarrow> snd (saveCaptureDefaultModelForPage e (Some api) options)
                    = [GET (page_url pid),
                       PUT (page_url pid) (JObj [(''content'', merged_content req cfg pageContent)])])
         \<and> ((module_targets req pageContent \<noteq> [] \<or> layout_targets req pageContent \<noteq> [])
               \<and> put_page (page_url pid) (JObj [(''content'', merged_content req cfg pageContent)])
                   = Inl err
              \<longrightarrow> fst (saveCaptureDefaultModelForPage e (Some api) options) = Inl err)
         \<and> ((module_targets req pageContent \<noteq> [] \<or> layout_targets req pageContent \<noteq> [])
               \<and> put_page (page_url pid) (JObj [(''content'', merged_content req cfg pageContent)])
                   = Inr putResponse
              \<longrightarrow> fst (saveCaptureDefaultModelForPage e (Some api) options)
                    = Inr \<lparr> saved_pageId = pid,
                            saved_default_model_key = config_text cfg ''default_model_key'',
                            saved_default_model_provider = config_text cfg ''default_model_provider'',
                            saved_default_model_server_id = config_text cfg ''default_model_server_id'',
                            saved_default_model_name = config_text cfg ''default_model_name'',
                            updated_targets = length (module_targets req pageContent)
                                              + length (layout_targets req pageContent) \<rparr>)
         \<and> (\<forall>member target key.
               get (merge_member member cfg (JObj target)) member
                 = Some (JObj (spread (own_entries (object_member (JObj target) member)) cfg))
               \<and> map_of (spread (own_entries (object_member (JObj target) member)) cfg) key
                 = (case map_of (rev cfg) key of
                      Some v \<Rightarrow> Some v
                    | None \<Rightarrow> map_of (own_entries (object_member (JObj target) member)) key))"
proof -
  note save = save_after_fetch [OF assms, unfolded matched_targets_count updated_content_merged]
  have a: "\<forall>e' api' options' r issued.
            saveCaptureDefaultModelForPage e' api' options' = (Inr r, issued) \<longrightarrow> 1 \<le> updated_targets r"
    using save_success_targets by blast
  have b: "module_targets req pageContent = [] \<and> layout_targets req pageContent = []
              \<longrightarrow> saveCaptureDefaultModelForPage e (Some api) options
                    = (Inl could_not_locate, [GET (page_url pid)])"
    by (simp add: save)
  have c: "module_targets req pageContent \<noteq> [] \<or> layout_targets req pageContent \<noteq> []
              \<longrightarrow> snd (saveCaptureDefaultModelForPage e (Some api) options)
                    = [GET (page_url pid),
                       PUT (page_url pid) (JObj [(''content'', merged_content req cfg pageContent)])]"
    by (auto simp add: save)
  have d: "(module_targets req pageContent \<noteq> [] \<or> layout_targets req pageContent \<noteq> [])
               \<and> put_page (page_url pid) (JObj [(''content'', merged_content req cfg pageContent)])
                   = Inl err
              \<longrightarrow> fst (saveCaptureDefaultModelForPage e (Some api) options) = Inl err"
    by (auto simp add: save)
  have f: "(module_targets req pageContent \<noteq> [] \<or> layout_targets req pageContent \<noteq> [])
               \<and> put_page (page_url pid) (JObj [(''content'', merged_content req cfg pageContent)])
                   = Inr putResponse
              \<longrightarrow> fst (saveCaptureDefaultModelForPage e (Some api) options)
                    = Inr \<lparr> saved_pageId = pid,
                            saved_default_model_key = config_text cfg ''default_model_key'',
                            saved_default_model_provider = config_text cfg ''default_model_provider'',
                            saved_default_model_server_id = config_text cfg ''default_model_server_id'',
                            saved_default_model_name = config_text cfg ''default_model_name'',
                            updated_targets = length (module_targets req pageContent)
                                              + length (layout_targets req pageContent) \<rparr>"
    by (auto simp add: save)
  have g: "\<forall>member target key.
               get (merge_member member cfg (JObj target)) member
                 = Some (JObj (spread (own_entries (object_member (JObj target) member)) cfg))
               \<and> map_of (spread (own_entries (object_member (JObj target) member)) cfg) key
                 = (case map_of (rev cfg) key of
                      Some v \<Rightarrow> Some v
                    | None \<Rightarrow> map_of (own_entries (object_member (JObj target) member)) key)"
    using merge_member_lookup spread_lookup by blast
  from a b c d f g show ?thesis by (intro conjI)
qed

lemma sample_save_facts:
  "normalizePageId (save_pageId save_options) = ''ab12''"
  "normalizeToken_str (case save_moduleId save_options of Some m \<Rightarrow> m | None \<Rightarrow> []) = []"
  "buildDefaultModelConfig (save_selectedModel save_options) = Inr sample_cfg"
  by (simp_all add: save_options_def normalizePageId_def trim_def is_ws_def normalizeToken_str_def
      toLowerCase_def buildDefaultModelConfig_def sample_model_def sample_cfg_def Let_def)

lemma sample_page_records:
  "extractPageRecord capture_page = Inr capture_page"
  "extractPageRecord other_page = Inr other_page"
  "extractPageRecord layout_page = Inr layout_page"
  "extractPageRecord full_page = Inr full_page"
  by (simp_all add: extractPageRecord_def normalizeApiPayload_def capture_page_def other_page_def
      layout_page_def full_page_def js_or_def)

lemma sample_contents:
  "parsePageContent sample_env (get capture_page ''content'') = Inr (the (get capture_page ''content''))"
  "parsePageContent sample_env (get other_page ''content'') = Inr (the (get other_page ''content''))"
  "parsePageContent sample_env (get layout_page ''content'') = Inr (the (get layout_page ''content''))"
  "parsePageContent sample_env (get full_page ''content'') = Inr (the (get full_page ''content''))"
  by (simp_all add: parsePageContent_def capture_page_def other_page_def layout_page_def full_page_def)

lemma sample_targets:
  "module_targets [] (the (get other_page ''content'')) = []"
  "layout_targets [] (the (get other_page ''content'')) = []"
  "length (module_targets [] (the (get capture_page ''content''))) = 1"
  "length (layout_targets [] (the (get capture_page ''content''))) = 0"
  "length (module_targets [] (the (get layout_page ''content''))) = 0"
  "length (layout_targets [] (the (get layout_page ''content''))) = 1"
  "length (module_targets [] (the (get full_page ''content''))) = 1"
  "length (layout_targets [] (the (get full_page ''content''))) = 1"
  by code_simp+

lemma sample_merged:
  "merged_content [] sample_cfg (the (get capture_page ''content''))
   = JObj [(''modules'',
            JObj [(''LibraryCapture_1'', JObj [(''config'', JObj ((''title'', JStr ''Capture'') # sample_cfg))])])]"
  "merged_content [] sample_cfg (the (get layout_page ''content''))
   = JObj [(''layouts'',
            JObj [(''desktop'',
                   JArr [JObj [(''i'', JStr ''LibraryCapture_a''),
                               (''args'', JObj ((''moduleId'', JStr ''m1'') # sample_cfg))],
                         JObj [(''i'', JStr ''notes'')]])])]"
  "merged_content [] sample_cfg (the (get full_page ''content''))
   = JObj [(''modules'',
            JObj [(''LibraryCapture_1'', JObj [(''config'', JObj ((''title'', JStr ''Capture'') # sample_cfg))])]),
           (''layouts'',
            JObj [(''desktop'',
                   JArr [JObj [(''i'', JStr ''n1''),
                               (''pluginId'', JStr ''BrainDriveLibraryPlugin''),
                               (''args'', JObj ((''moduleName'', JStr ''LibraryCapture'') # sample_cfg))],
                         JObj [(''i'', JStr ''notes'')]])])]"
  by code_simp+

theorem save_default_model_targets_witness:
  "saveCaptureDefaultModelForPage sample_env (Some (page_api other_page)) save_options
     = (Inl could_not_locate, [GET ''/api/v1/pages/ab12''])
   \<and> snd (saveCaptureDefaultModelForPage sample_env (Some (page_api capture_page)) save_options)
     = [GET ''/api/v1/pages/ab12'',
        PUT ''/api/v1/pages/ab12''
          (JObj [(''content'', JObj [(''modules'',
             JObj [(''LibraryCapture_1'',
                    JObj [(''config'', JObj ((''title'', JStr ''Capture'') # sample_cfg))])])])])]
   \<and> map_sum id updated_targets
         (fst (saveCaptureDefaultModelForPage sample_env (Some (page_api capture_page)) save_options))
     = Inr 1
   \<and> snd (saveCaptureDefaultModelForPage sample_env (Some (page_api layout_page)) save_options)
     = [GET ''/api/v1/pages/ab12'',
        PUT ''/api/v1/pages/ab12''
          (JObj [(''content'', JObj [(''layouts'',
             JObj [(''desktop'',
                    JArr [JObj [(''i'', JStr ''LibraryCapture_a''),
                                (''args'', JObj ((''moduleId'', JStr ''m1'') # sample_cfg))],
                          JObj [(''i'', JStr ''notes'')]])])])])]
   \<and> map_sum id updated_targets
         (fst (saveCaptureDefaultModelForPage sample_env (Some (page_api layout_page)) save_options))
     = Inr 1
   \<and> snd (saveCaptureDefaultModelForPage sample_env (Some (page_api full_page)) save_options)
     = [GET ''/api/v1/pages/ab12'',
        PUT ''/api/v1/pages/ab12''
          (JObj [(''content'',
             JObj [(''modules'',
                    JObj [(''LibraryCapture_1'',
                           JObj [(''config'', JObj ((''title'', JStr ''Capture'') # sample_cfg))])]),
                   (''layouts'',
                    JObj [(''desktop'',
                           JArr [JObj [(''i'', JStr ''n1''),
                                       (''pluginId'', JStr ''BrainDriveLibraryPlugin''),
                                       (''args'', JObj ((''moduleName'', JStr ''LibraryCapture'') # sample_cfg))],
                                 JObj [(''i'', JStr ''notes'')]])])])])]
   \<and> map_sum id updated_targets
         (fst (saveCaptureDefaultModelForPage sample_env (Some (page_api full_page)) save_options))
     = Inr 2"
proof -
  have u: "page_url ''ab12'' = ''/api/v1/pages/ab12''" by (simp add: page_url_def)
  have g: "\<And>p. api_get (page_api p) = Some (\<lambda>url. Inr p)"
          "\<And>p. api_put (page_api p) = Some (\<lambda>url body. Inr (JObj []))"
    by (simp_all add: page_api_def)
  have n: "\<And>xs. (xs \<noteq> []) = (length xs \<noteq> 0)" by simp
  note other = save_default_model_targets
    [where api = "page_api other_page" and options = save_options and e = sample_env
       and pageResponse = other_page and putResponse = "JObj []",
     OF g(1) g(2) sample_save_facts(1) _ sample_save_facts(2) sample_save_facts(3) _
        sample_page_records(2) sample_contents(2), THEN conjunct2, THEN conjunct1]
  note capture = save_default_model_targets
    [where api = "page_api capture_page" and options = save_options and e = sample_env
       and pageResponse = capture_page and putResponse = "JObj []",
     OF g(1) g(2) sample_save_facts(1) _ sample_save_facts(2) sample_save_facts(3) _
        sample_page_records(1) sample_contents(1), THEN conjunct2, THEN conjunct2]
  note layout = save_default_model_targets
    [where api = "page_api layout_page" and options = save_options and e = sample_env
       and pageResponse = layout_page and putResponse = "JObj []",
     OF g(1) g(2) sample_save_facts(1) _ sample_save_facts(2) sample_save_facts(3) _
        sample_page_records(3) sample_contents(3), THEN conjunct2, THEN conjunct2]
  note full = save_default_model_targets
    [where api = "page_api full_page" and options = save_options and e = sample_env
       and pageResponse = full_page and putResponse = "JObj []",
     OF g(1) g(2) sample_save_facts(1) _ sample_save_facts(2) sample_save_facts(3) _
        sample_page_records(4) sample_contents(4), THEN conjunct2, THEN conjunct2]
  have a: "saveCaptureDefaultModelForPage sample_env (Some (page_api other_page)) save_options
     = (Inl could_not_locate, [GET ''/api/v1/pages/ab12''])"
    using other by (simp add: sample_targets u)
  have b: "snd (saveCaptureDefaultModelForPage sample_env (Some (page_api capture_page)) save_options)
     = [GET ''/api/v1/pages/ab12'',
        PUT ''/api/v1/pages/ab12''
          (JObj [(''content'', JObj [(''modules'',
             JObj [(''LibraryCapture_1'',
                    JObj [(''config'', JObj ((''title'', JStr ''Capture'') # sample_cfg))])])])])]"
    using capture [THEN conjunct1] by (simp add: n sample_targets sample_merged u)
  have c: "map_sum id updated_targets
         (fst (saveCaptureDefaultModelForPage sample_env (Some (page_api capture_page)) save_options))
     = Inr 1"
    using capture [THEN conjunct2, THEN conjunct2, THEN conjunct1]
    by (simp add: n sample_targets u)
  have d: "snd (saveCaptureDefaultModelForPage sample_env (Some (page_api layout_page)) save_options)
     = [GET ''/api/v1/pages/ab12'',
        PUT ''/api/v1/pages/ab12''
          (JObj [(''content'', JObj [(''layouts'',
             JObj [(''desktop'',
                    JArr [JObj [(''i'', JStr ''LibraryCapture_a''),
                                (''args'', JObj ((''moduleId'', JStr ''m1'') # sample_cfg))],
                          JObj [(''i'', JStr ''notes'')]])])])])]"
    using layout [THEN conjunct1] by (simp add: n sample_targets sample_merged u)
  have f: "map_sum id updated_targets
         (fst (saveCaptureDefaultModelForPage sample_env (Some (page_api layout_page)) save_options))
     = Inr 1"
    using layout [THEN conjunct2, THEN conjunct2, THEN conjunct1]
    by (simp add: n sample_targets u)
  have h: "snd (saveCaptureDefaultModelForPage sample_env (Some (page_api full_page)) save_options)
     = [GET ''/api/v1/pages/ab12'',
        PUT ''/api/v1/pages/ab12''
          (JObj [(''content'',
             JObj [(''modules'',
                    JObj [(''LibraryCapture_1'',
                           JObj [(''config'', JObj ((''title'', JStr ''Capture'') # sample_cfg))])]),
                   (''layouts'',
                    JObj [(''desktop'',
                           JArr [JObj [(''i'', JStr ''n1''),
                                       (''pluginId'', JStr ''BrainDriveLibraryPlugin''),
                                       (''args'', JObj ((''moduleName'', JStr ''LibraryCapture'') # sample_cfg))],
                                 JObj [(''i'', JStr ''notes'')]])])])])]"
    using full [THEN conjunct1] by (simp add: n sample_targets sample_merged u)
  have i: "map_sum id updated_targets
         (fst (saveCaptureDefaultModelForPage sample_env (Some (page_api full_page)) save_options))
     = Inr 2"
    using full [THEN conjunct2, THEN conjunct2, THEN conjunct1]
    by (simp add: n sample_targets u)
  from a b c d f h i show ?thesis by (intro conjI)
qed
end
